theory Spec2Isabelle
  imports Main
begin

section \<open>The testsuite component (versions/v4/ccm.testsuite.js)\<close>

text \<open>
  The component walks a tree of test packages, runs every unit test between the
  inherited setup and finally functions, and collects the outcomes in a result object.
  The theory embeds the assertion operations of the per-test \<open>suite\<close> object, the
  functions \<open>setResult\<close> and \<open>showResult\<close>, the body of the per-test callback, and the
  recursive \<open>processPackage\<close>, together with \<open>ready\<close> and \<open>start\<close>.

  Functions of the host language that the component relies on (truthiness, \<open>typeof\<close>,
  \<open>==\<close>, \<open>===\<close>, \<open>JSON.stringify\<close>) are defined first, on a fragment of JavaScript
  values.
\<close>

subsection \<open>JavaScript values\<close>

text \<open>
  The fragment: \<open>undefined\<close>, \<open>null\<close>, booleans, integers (those that a number
  represents exactly and prints without exponent), \<open>NaN\<close>, strings of ASCII
  characters, plain objects and arrays. Other numbers, functions as values, symbols
  and bigints are left out. An object or array carries its identity (a reference
  number) and its own enumerable properties in enumeration order, with distinct keys.
\<close>

datatype jsval =
    JUndefined
  | JNull
  | JBool bool
  | JNum int
  | JNaN
  | JStr string
  | JObj nat "(string \<times> jsval) list"
  | JArr nat "jsval list"

text \<open>\<open>typeof v\<close>; note that \<open>typeof null\<close> is \<open>"object"\<close>.\<close>

fun typeof :: "jsval \<Rightarrow> string" where
  "typeof JUndefined = ''undefined''"
| "typeof JNull = ''object''"
| "typeof (JBool b) = ''boolean''"
| "typeof (JNum n) = ''number''"
| "typeof JNaN = ''number''"
| "typeof (JStr s) = ''string''"
| "typeof (JObj r kvs) = ''object''"
| "typeof (JArr r xs) = ''object''"

text \<open>ToBoolean, the coercion applied by \<open>if\<close>, \<open>!\<close>, \<open>&&\<close> and \<open>?:\<close>.\<close>

fun truthy :: "jsval \<Rightarrow> bool" where
  "truthy JUndefined = False"
| "truthy JNull = False"
| "truthy (JBool b) = b"
| "truthy (JNum n) = (n \<noteq> 0)"
| "truthy JNaN = False"
| "truthy (JStr s) = (s \<noteq> [])"
| "truthy (JObj r kvs) = True"
| "truthy (JArr r xs) = True"

text \<open>Decimal representation of an integral number (Number::toString).\<close>

definition digit_char :: "nat \<Rightarrow> char" where
  "digit_char d = ''0123456789'' ! d"

function digits_of :: "nat \<Rightarrow> string" where
  "digits_of n =
     (if n < 10 then [digit_char n] else digits_of (n div 10) @ [digit_char (n mod 10)])"
  by pat_completeness auto
termination
  by (relation "measure id") auto

declare digits_of.simps [simp del]

definition number_to_string :: "int \<Rightarrow> string" where
  "number_to_string n =
     (if n < 0 then CHR ''-'' # digits_of (nat (- n)) else digits_of (nat n))"

text \<open>\<open>Array.prototype.join\<close> on strings.\<close>

definition join :: "string \<Rightarrow> string list \<Rightarrow> string" where
  "join sep xs = (case xs of [] \<Rightarrow> [] | y # ys \<Rightarrow> foldl (\<lambda>acc x. acc @ sep @ x) y ys)"

text \<open>
  ToString. A plain object prints as \<open>[object Object]\<close>; an array joins its elements
  with commas, \<open>undefined\<close> and \<open>null\<close> elements printing as the empty string.
\<close>

fun to_string :: "jsval \<Rightarrow> string" where
  "to_string JUndefined = ''undefined''"
| "to_string JNull = ''null''"
| "to_string (JBool b) = (if b then ''true'' else ''false'')"
| "to_string (JNum n) = number_to_string n"
| "to_string JNaN = ''NaN''"
| "to_string (JStr s) = s"
| "to_string (JObj r kvs) = ''[object Object]''"
| "to_string (JArr r xs) =
     join '','' (map (\<lambda>x. if x = JUndefined \<or> x = JNull then [] else to_string x) xs)"

text \<open>
  StringToNumber, with \<open>None\<close> for \<open>NaN\<close>: surrounding (ASCII) white space is dropped,
  the empty string is 0, and an optionally signed run of decimal digits is its value.
  Literals with a fraction, an exponent or a radix prefix, and \<open>Infinity\<close>, are not
  covered by the fragment and read as \<open>None\<close>.
\<close>

definition is_ws :: "char \<Rightarrow> bool" where
  "is_ws c = (c \<in> set [CHR '' '', CHR 0x09, CHR 0x0A, CHR 0x0B, CHR 0x0C, CHR 0x0D])"

definition trim :: "string \<Rightarrow> string" where
  "trim s = rev (dropWhile is_ws (rev (dropWhile is_ws s)))"

definition digit_val :: "char \<Rightarrow> nat option" where
  "digit_val c =
     (if (48::nat) \<le> of_char c \<and> of_char c \<le> (57::nat) then Some (of_char c - 48) else None)"

fun parse_digits :: "nat \<Rightarrow> string \<Rightarrow> nat option" where
  "parse_digits acc [] = Some acc"
| "parse_digits acc (c # cs) =
     (case digit_val c of None \<Rightarrow> None | Some d \<Rightarrow> parse_digits (acc * 10 + d) cs)"

definition string_to_number :: "string \<Rightarrow> int option" where
  "string_to_number s =
     (case trim s of
        [] \<Rightarrow> Some 0
      | c # cs \<Rightarrow>
          if c = CHR ''-'' then (if cs = [] then None else map_option (\<lambda>n. - int n) (parse_digits 0 cs))
          else if c = CHR ''+'' then (if cs = [] then None else map_option int (parse_digits 0 cs))
          else map_option int (parse_digits 0 (c # cs)))"

text \<open>ToPrimitive and ToNumber (\<open>None\<close> is \<open>NaN\<close>).\<close>

fun to_primitive :: "jsval \<Rightarrow> jsval" where
  "to_primitive (JObj r kvs) = JStr (to_string (JObj r kvs))"
| "to_primitive (JArr r xs) = JStr (to_string (JArr r xs))"
| "to_primitive v = v"

fun to_number :: "jsval \<Rightarrow> int option" where
  "to_number JUndefined = None"
| "to_number JNull = Some 0"
| "to_number (JBool b) = Some (if b then 1 else 0)"
| "to_number (JNum n) = Some n"
| "to_number JNaN = None"
| "to_number (JStr s) = string_to_number s"
| "to_number (JObj r kvs) = string_to_number (to_string (JObj r kvs))"
| "to_number (JArr r xs) = string_to_number (to_string (JArr r xs))"

text \<open>
  Strict equality \<open>===\<close>: equal types and equal values, \<open>NaN\<close> differing from itself,
  objects and arrays compared by identity.
\<close>

fun strict_eq :: "jsval \<Rightarrow> jsval \<Rightarrow> bool" where
  "strict_eq JNaN y = False"
| "strict_eq (JObj r kvs) y =
     (case y of JObj r' kvs' \<Rightarrow> r = r' | JArr r' xs' \<Rightarrow> False | _ \<Rightarrow> False)"
| "strict_eq (JArr r xs) y =
     (case y of JArr r' xs' \<Rightarrow> r = r' | JObj r' kvs' \<Rightarrow> False | _ \<Rightarrow> False)"
| "strict_eq x y = (x = y)"

text \<open>
  Loose equality \<open>==\<close> (IsLooselyEqual). Two objects are compared by identity;
  \<open>undefined\<close> and \<open>null\<close> equal each other and nothing else; in every other case at
  most one side is an object, which is replaced by its primitive, and then two strings
  are compared as strings and anything else numerically.
\<close>

definition is_object :: "jsval \<Rightarrow> bool" where
  "is_object v = (case v of JObj r kvs \<Rightarrow> True | JArr r xs \<Rightarrow> True | _ \<Rightarrow> False)"

definition is_nullish :: "jsval \<Rightarrow> bool" where
  "is_nullish v = (v = JUndefined \<or> v = JNull)"

definition loose_prim :: "jsval \<Rightarrow> jsval \<Rightarrow> bool" where
  "loose_prim x y =
     (case (x, y) of
        (JStr s, JStr t) \<Rightarrow> s = t
      | _ \<Rightarrow> (case (to_number x, to_number y) of (Some m, Some n) \<Rightarrow> m = n | _ \<Rightarrow> False))"

definition loose_eq :: "jsval \<Rightarrow> jsval \<Rightarrow> bool" where
  "loose_eq x y =
     (if is_object x \<and> is_object y then strict_eq x y
      else if is_nullish x then is_nullish y
      else if is_nullish y then False
      else loose_prim (to_primitive x) (to_primitive y))"

text \<open>
  \<open>JSON.stringify\<close> with one argument: \<open>undefined\<close> for \<open>undefined\<close>, otherwise the JSON
  text. \<open>NaN\<close> serialises as \<open>null\<close>; a property whose value is \<open>undefined\<close> is left
  out of an object and printed as \<open>null\<close> in an array.
\<close>

definition hex_char :: "nat \<Rightarrow> char" where
  "hex_char d = ''0123456789abcdef'' ! d"

definition json_escape :: "char \<Rightarrow> string" where
  "json_escape c =
     (if c = CHR 0x22 then [CHR 0x5C, CHR 0x22]
      else if c = CHR 0x5C then [CHR 0x5C, CHR 0x5C]
      else if c = CHR 0x08 then [CHR 0x5C, CHR ''b'']
      else if c = CHR 0x0C then [CHR 0x5C, CHR ''f'']
      else if c = CHR 0x0A then [CHR 0x5C, CHR ''n'']
      else if c = CHR 0x0D then [CHR 0x5C, CHR ''r'']
      else if c = CHR 0x09 then [CHR 0x5C, CHR ''t'']
      else if (of_char c :: nat) < 32
        then [CHR 0x5C, CHR ''u'', CHR ''0'', CHR ''0'',
              hex_char (of_char c div 16), hex_char (of_char c mod 16)]
      else [c])"

definition json_quote :: "string \<Rightarrow> string" where
  "json_quote s = CHR 0x22 # concat (map json_escape s) @ [CHR 0x22]"

fun json_text :: "jsval \<Rightarrow> string option" where
  "json_text JUndefined = None"
| "json_text JNull = Some ''null''"
| "json_text (JBool b) = Some (if b then ''true'' else ''false'')"
| "json_text (JNum n) = Some (number_to_string n)"
| "json_text JNaN = Some ''null''"
| "json_text (JStr s) = Some (json_quote s)"
| "json_text (JObj r kvs) =
     Some (''{'' @
       join '',''
         (concat (map (\<lambda>kv. case json_text (snd kv) of
                          None \<Rightarrow> []
                        | Some t \<Rightarrow> [json_quote (fst kv) @ '':'' @ t]) kvs))
       @ ''}'')"
| "json_text (JArr r xs) =
     Some (''['' @
       join '','' (map (\<lambda>x. case json_text x of None \<Rightarrow> ''null'' | Some t \<Rightarrow> t) xs)
       @ '']'')"

definition JSON_stringify :: "jsval \<Rightarrow> jsval" where
  "JSON_stringify v = (case json_text v of None \<Rightarrow> JUndefined | Some t \<Rightarrow> JStr t)"

text \<open>
  Reading a property \<open>v.key\<close> of a value that is neither \<open>undefined\<close> nor \<open>null\<close>, for a
  key that no prototype defines (the component reads \<open>expected\<close> and \<open>actual\<close>).
\<close>

definition get_prop :: "jsval \<Rightarrow> string \<Rightarrow> jsval" where
  "get_prop v key =
     (case v of
        JObj r kvs \<Rightarrow> (case map_of kvs key of None \<Rightarrow> JUndefined | Some x \<Rightarrow> x)
      | _ \<Rightarrow> JUndefined)"

subsection \<open>The suite object and the assertion operations\<close>

text \<open>
  The object \<open>suite\<close> created for each unit test (source lines 185 to 267). Its data
  properties are those that \<open>setResult\<close> writes and \<open>showResult\<close> reads; a property
  that was never written reads as \<open>undefined\<close>. Of \<open>abort\<close> the source only ever tests
  the truthiness, so it is a boolean here. \<open>custom\<close> holds every other property that a
  test, a setup or a finally function stores on the suite (\<open>suite.numbers\<close> in
  resources/tests.js). The reference \<open>suite.ccm\<close> to the framework is not modelled.
\<close>

record suite =
  result :: jsval
  abort :: bool
  message :: jsval
  expected :: jsval
  actual :: jsval
  custom :: "string \<Rightarrow> jsval"

definition new_suite :: suite where
  "new_suite =
     \<lparr> result = JUndefined, abort = False, message = JUndefined,
       expected = JUndefined, actual = JUndefined, custom = (\<lambda>k. JUndefined) \<rparr>"

text \<open>
  The object literal \<open>{ expected, actual }\<close> that \<open>assertSame\<close> and \<open>assertEquals\<close>
  hand to \<open>setResult\<close>. It is a fresh object whose identity is never compared.
\<close>

definition expected_actual :: "jsval \<Rightarrow> jsval \<Rightarrow> jsval" where
  "expected_actual e a = JObj 0 [(''expected'', e), (''actual'', a)]"

text \<open>
  \<open>setResult(result, message)\<close>, source lines 304 to 315. Every call site passes a
  boolean as \<open>result\<close>; \<open>message\<close> is \<open>undefined\<close> where the call site passes none.
\<close>

definition setResult :: "bool \<Rightarrow> jsval \<Rightarrow> suite \<Rightarrow> suite" where
  "setResult res msg s =
     (if abort s then s
      else
        let s1 = s\<lparr>result := JBool res\<rparr> in
        if res then s1
        else
          let s2 = s1\<lparr>abort := True\<rparr> in
          if \<not> truthy msg then s2
          else if typeof msg = ''string'' then s2\<lparr>message := msg\<rparr>
          else s2\<lparr>expected := get_prop msg ''expected'', actual := get_prop msg ''actual''\<rparr>)"

text \<open>\<open>suite.passed()\<close> and \<open>suite.failed(message)\<close>.\<close>

definition suite_passed :: "suite \<Rightarrow> suite" where
  "suite_passed s = setResult True JUndefined s"

definition suite_failed :: "jsval \<Rightarrow> suite \<Rightarrow> suite" where
  "suite_failed msg s = setResult False msg s"

definition assertTrue :: "jsval \<Rightarrow> suite \<Rightarrow> suite" where
  "assertTrue condition s = setResult (truthy condition) JUndefined s"

definition assertFalse :: "jsval \<Rightarrow> suite \<Rightarrow> suite" where
  "assertFalse condition s = setResult (\<not> truthy condition) JUndefined s"

definition assertSame :: "jsval \<Rightarrow> jsval \<Rightarrow> suite \<Rightarrow> suite" where
  "assertSame e a s = setResult (loose_eq e a) (expected_actual e a) s"

text \<open>
  \<open>Math.abs(expected - actual) < delta\<close>: the operands are converted to numbers, and
  a comparison with \<open>NaN\<close> is false.
\<close>

definition abs_diff_less :: "jsval \<Rightarrow> jsval \<Rightarrow> jsval \<Rightarrow> bool" where
  "abs_diff_less e a delta =
     (case (to_number e, to_number a, to_number delta) of
        (Some x, Some y, Some d) \<Rightarrow> \<bar>x - y\<bar> < d
      | _ \<Rightarrow> False)"

definition assertEquals :: "jsval \<Rightarrow> jsval \<Rightarrow> jsval \<Rightarrow> suite \<Rightarrow> suite" where
  "assertEquals e a delta s =
     (let e' = (if typeof e = ''object'' then JSON_stringify e else e);
          a' = (if typeof a = ''object'' then JSON_stringify a else a)
      in setResult (if truthy delta then abs_diff_less e' a' delta else strict_eq e' a')
           (expected_actual e' a') s)"

definition assertNotSame :: "jsval \<Rightarrow> jsval \<Rightarrow> suite \<Rightarrow> suite" where
  "assertNotSame e a s = setResult (\<not> strict_eq e a) JUndefined s"

definition assertNotEquals :: "jsval \<Rightarrow> jsval \<Rightarrow> suite \<Rightarrow> suite" where
  "assertNotEquals e a s = assertNotSame (JSON_stringify e) (JSON_stringify a) s"

text \<open>One call of an assertion operation, and a sequence of such calls on a suite.\<close>

datatype call =
    Passed
  | Failed jsval
  | AssertTrue jsval
  | AssertFalse jsval
  | AssertSame jsval jsval
  | AssertEquals jsval jsval jsval
  | AssertNotSame jsval jsval
  | AssertNotEquals jsval jsval

fun perform :: "call \<Rightarrow> suite \<Rightarrow> suite" where
  "perform Passed s = suite_passed s"
| "perform (Failed msg) s = suite_failed msg s"
| "perform (AssertTrue c) s = assertTrue c s"
| "perform (AssertFalse c) s = assertFalse c s"
| "perform (AssertSame e a) s = assertSame e a s"
| "perform (AssertEquals e a d) s = assertEquals e a d s"
| "perform (AssertNotSame e a) s = assertNotSame e a s"
| "perform (AssertNotEquals e a) s = assertNotEquals e a s"

fun perform_all :: "call list \<Rightarrow> suite \<Rightarrow> suite" where
  "perform_all [] s = s"
| "perform_all (c # cs) s = perform_all cs (perform c s)"

subsection \<open>Functions, packages and the result data\<close>

text \<open>
  A thrown value or the reason of a rejected promise is any value: \<open>undefined\<close> for a
  promise rejected without reason. An error object is represented by the object
  with the properties \<open>name\<close> and \<open>message\<close> as reading them yields; its identity is
  never compared.
\<close>

definition error_object :: "string \<Rightarrow> string \<Rightarrow> jsval" where
  "error_object name msg = JObj 0 [(''name'', JStr name), (''message'', JStr msg)]"

text \<open>
  The TypeError that reading a property of \<open>null\<close> or \<open>undefined\<close> throws. The text of
  its message depends on the engine.
\<close>

definition type_error :: "jsval \<Rightarrow> jsval" where
  "type_error v = error_object ''TypeError'' (''Cannot read properties of '' @ to_string v)"

text \<open>
  A unit test, a setup or a finally function: its \<open>name\<close> property and its effect on
  the suite it is called with, up to the moment the call returns, throws, or the
  promise it returned is settled. The second component is the value thrown or the
  rejection reason, if any. A function is taken to depend on the suite only. Work that
  it leaves running after that moment, and a promise that is never settled, are not
  modelled.
\<close>

datatype jsfun = Fun (fname: string) (body: "suite \<Rightarrow> suite \<times> jsval option")

text \<open>
  A test package: the optional properties \<open>setup\<close>, \<open>tests\<close> and \<open>finally\<close>, and every
  other property as a subpackage, in the order in which \<open>for ... in\<close> enumerates them.
  The tests are the values of the \<open>tests\<close> object or array in the order of
  \<open>Object.keys\<close>.
\<close>

datatype package =
  Package (pkg_setup: "jsfun option") (pkg_tests: "jsfun list option")
    (pkg_finally: "jsfun option") (subpackages: "(string \<times> package) list")

text \<open>
  The result data (source lines 80 to 85). An entry of \<open>details\<close> is either a value
  taken from the suite or the object \<open>{ expected, actual }\<close>.
\<close>

datatype detail = Plain jsval | Comparison jsval jsval

record results =
  executed :: nat
  passed :: nat
  failed :: nat
  details :: "string \<rightharpoonup> detail"

text \<open>
  What a run has done so far: the result data and, in call order, every call of a
  setup function, a unit test or a finally function with the suite as it was passed.
\<close>

datatype event = Call jsfun suite

record state =
  results :: results
  trace :: "event list"

text \<open>
  The instance of the component: the helper functions \<open>$.stringify\<close> and
  \<open>$.escapeHTML\<close>, which are not part of these sources and are taken as parameters;
  whether a website area \<open>this.element\<close> exists; the configured package path
  \<open>this.package\<close> (\<open>None\<close> when absent) and package tree \<open>this.tests\<close> (\<open>None\<close> when
  \<open>undefined\<close>); and the collected \<open>setups\<close> and \<open>finallies\<close>. Rendering into the
  website area does not touch the suite or the result data beyond what \<open>showResult\<close>
  does below, and is left out.
\<close>

record ccm_instance =
  stringify :: "jsval \<Rightarrow> jsval"
  escapeHTML :: "jsval \<Rightarrow> jsval"
  self_element :: bool
  self_package :: "string option"
  self_tests :: "package option"
  self_setups :: "jsfun list"
  self_finallies :: "jsfun list"

subsection \<open>Running one unit test\<close>

text \<open>
  Modelled from the spec: the helper \<open>$.asyncForEach(array, callback)\<close> is not part of
  these sources. It calls the callback on each element in order and awaits each call
  before the next one; a call that throws or rejects ends the loop with that error.
\<close>

fun asyncForEach ::
  "'a list \<Rightarrow> ('a \<Rightarrow> 'st \<Rightarrow> 'st \<times> jsval option) \<Rightarrow> 'st \<Rightarrow> 'st \<times> jsval option"
where
  "asyncForEach [] callback st = (st, None)"
| "asyncForEach (x # xs) callback st =
     (case callback x st of
        (st', None) \<Rightarrow> asyncForEach xs callback st'
      | (st', Some e) \<Rightarrow> (st', Some e))"

text \<open>
  The call \<open>f(suite)\<close> of a setup function, a unit test or a finally function, awaited:
  the suite is updated in place and the call is recorded.
\<close>

definition call_fun ::
  "jsfun \<Rightarrow> suite \<times> event list \<Rightarrow> (suite \<times> event list) \<times> jsval option"
where
  "call_fun f st =
     (case st of (s, tr) \<Rightarrow>
        (case body f s of (s', thrown) \<Rightarrow> ((s', tr @ [Call f s]), thrown)))"

text \<open>
  The text \<open>e.name + (e.message ? ": " + e.message : "")\<close> of source line 279, for a
  caught value \<open>e\<close> that is neither \<open>null\<close> nor \<open>undefined\<close>. The right operand of the
  first \<open>+\<close> is a string, so both \<open>+\<close> concatenate the operands as strings.
\<close>

definition error_text :: "jsval \<Rightarrow> string" where
  "error_text e =
     to_string (get_prop e ''name'')
     @ (if truthy (get_prop e ''message'') then '': '' @ to_string (get_prop e ''message'')
        else [])"

text \<open>
  The \<open>try\<close> statement of source lines 273 to 281: the unit test is called. In the
  \<open>catch\<close> block nothing is done if \<open>suite.abort\<close> is set. Otherwise the text is built
  from the caught value and recorded through \<open>setResult\<close>; if the caught value is
  \<open>null\<close> or \<open>undefined\<close>, reading \<open>e.name\<close> throws a TypeError, with which the
  statement ends.
\<close>

definition try_test ::
  "jsfun \<Rightarrow> suite \<times> event list \<Rightarrow> (suite \<times> event list) \<times> jsval option"
where
  "try_test test st =
     (case call_fun test st of
        ((s, tr), None) \<Rightarrow> ((s, tr), None)
      | ((s, tr), Some e) \<Rightarrow>
          if abort s then ((s, tr), None)
          else if is_nullish e then ((s, tr), Some (type_error e))
          else ((setResult False (JStr (error_text e)) s, tr), None))"

text \<open>
  \<open>showResult()\<close>, source lines 318 to 366. With a website area the expected and
  actual values of the suite are replaced by their escaped texts before they are
  stored.
\<close>

definition showResult ::
  "ccm_instance \<Rightarrow> string \<Rightarrow> jsfun \<Rightarrow> suite \<Rightarrow> results \<Rightarrow> suite \<times> results"
where
  "showResult self package_path test s res =
     (let key = package_path @ ''.'' @ fname test;
          res1 = (if truthy (result s) then res\<lparr>passed := passed res + 1\<rparr>
                  else res\<lparr>failed := failed res + 1\<rparr>);
          res2 = res1\<lparr>details := (details res1)(key \<mapsto> Plain (result s))\<rparr>;
          res3 = (if truthy (message s)
                  then res2\<lparr>details := (details res2)(key \<mapsto> Plain (message s))\<rparr>
                  else res2)
      in if \<not> truthy (result s) \<and> expected s \<noteq> JUndefined \<and> actual s \<noteq> JUndefined
         then
           let s1 = (if self_element self
                     then
                       let e1 = (if typeof (expected s) = ''object''
                                 then stringify self (expected s) else expected s);
                           sa = s\<lparr>expected := escapeHTML self e1\<rparr>;
                           a1 = (if typeof (actual sa) = ''object''
                                 then stringify self (actual sa) else actual sa)
                       in sa\<lparr>actual := escapeHTML self a1\<rparr>
                     else s)
           in (s1, res3\<lparr>details := (details res3)(key \<mapsto> Comparison (expected s1) (actual s1))\<rparr>)
         else (s, res3))"

text \<open>
  The callback of source lines 164 to 367, which runs one unit test: a new suite, the
  setup functions, the counter of executed tests, the \<open>try\<close> statement with the test
  itself, \<open>showResult\<close>, and the finally functions. An error thrown by a setup
  function, by the \<open>catch\<close> block or by a finally function ends the callback with
  that error.
\<close>

definition runTest ::
  "ccm_instance \<Rightarrow> string \<Rightarrow> jsfun list \<Rightarrow> jsfun list \<Rightarrow> jsfun \<Rightarrow> state
     \<Rightarrow> state \<times> jsval option"
where
  "runTest self package_path sups fins test st =
     (case asyncForEach sups call_fun (new_suite, trace st) of
        ((s1, tr1), Some e) \<Rightarrow> (st\<lparr>trace := tr1\<rparr>, Some e)
      | ((s1, tr1), None) \<Rightarrow>
          (let res1 = (results st)\<lparr>executed := executed (results st) + 1\<rparr> in
           case try_test test (s1, tr1) of
             ((s2, tr2), Some e) \<Rightarrow> (\<lparr>results = res1, trace = tr2\<rparr>, Some e)
           | ((s2, tr2), None) \<Rightarrow>
               (case showResult self package_path test s2 res1 of (s3, res2) \<Rightarrow>
                case asyncForEach fins call_fun (s3, tr2) of ((s4, tr3), thrown) \<Rightarrow>
                  (\<lparr>results = res2, trace = tr3\<rparr>, thrown))))"

subsection \<open>Walking the package tree\<close>

text \<open>\<open>runPackageTests(tests)\<close>, source lines 153 to 369.\<close>

definition runPackageTests ::
  "ccm_instance \<Rightarrow> string \<Rightarrow> jsfun list \<Rightarrow> jsfun list \<Rightarrow> jsfun list \<Rightarrow> state
     \<Rightarrow> state \<times> jsval option"
where
  "runPackageTests self package_path sups fins tsts st =
     asyncForEach tsts (runTest self package_path sups fins) st"

text \<open>
  \<open>processPackage(package_path, package_obj, setups, finallies)\<close>, source lines 110
  to 146, and its loop over the subpackages. The source deletes each property of the
  package object once it has been read; in a tree, where no object is reached twice,
  these deletions are not observed within a run.
\<close>

fun processPackage ::
  "ccm_instance \<Rightarrow> string \<Rightarrow> package \<Rightarrow> jsfun list \<Rightarrow> jsfun list \<Rightarrow> state
     \<Rightarrow> state \<times> jsval option"
and processSubpackages ::
  "ccm_instance \<Rightarrow> string \<Rightarrow> (string \<times> package) list \<Rightarrow> jsfun list \<Rightarrow> jsfun list \<Rightarrow> state
     \<Rightarrow> state \<times> jsval option"
where
  "processPackage self package_path (Package su ts fi subs) sups fins st =
     (let sups1 = (case su of None \<Rightarrow> sups | Some f \<Rightarrow> sups @ [f]);
          fins1 = (case fi of None \<Rightarrow> fins | Some f \<Rightarrow> f # fins)
      in case (case ts of None \<Rightarrow> (st, None)
               | Some tsts \<Rightarrow> runPackageTests self package_path sups1 fins1 tsts st) of
           (st1, Some e) \<Rightarrow> (st1, Some e)
         | (st1, None) \<Rightarrow> processSubpackages self package_path subs sups1 fins1 st1)"
| "processSubpackages self package_path [] sups fins st = (st, None)"
| "processSubpackages self package_path ((key, subpackage) # rest) sups fins st =
     (case processPackage self ((if package_path \<noteq> [] then package_path @ ''.'' else []) @ key)
             subpackage sups fins st of
        (st1, Some e) \<Rightarrow> (st1, Some e)
      | (st1, None) \<Rightarrow> processSubpackages self package_path rest sups fins st1)"

subsection \<open>The entry points ready and start\<close>

text \<open>\<open>String.prototype.split\<close> with the separator \<open>"."\<close>.\<close>

fun split_dot :: "string \<Rightarrow> string list" where
  "split_dot [] = [[]]"
| "split_dot (c # cs) =
     (if c = CHR ''.'' then [] # split_dot cs
      else (case split_dot cs of [] \<Rightarrow> [[c]] | x # xs \<Rightarrow> (c # x) # xs))"

text \<open>
  The \<open>while\<close> loop of \<open>ready\<close>, source lines 65 to 69. Reading \<open>this.tests.setup\<close> when
  \<open>this.tests\<close> is \<open>undefined\<close> throws a TypeError. A path segment that names one of
  the properties \<open>setup\<close>, \<open>tests\<close> or \<open>finally\<close> selects a value that is not a package;
  that case is outside the model, and the result is \<open>None\<close> then.
\<close>

definition reserved :: "string \<Rightarrow> bool" where
  "reserved key = (key = ''setup'' \<or> key = ''tests'' \<or> key = ''finally'')"

fun navigate :: "string list \<Rightarrow> ccm_instance \<Rightarrow> (jsval + ccm_instance) option" where
  "navigate [] self = Some (Inr self)"
| "navigate (key # array) self =
     (case self_tests self of
        None \<Rightarrow> Some (Inl (type_error JUndefined))
      | Some pkg \<Rightarrow>
          if reserved key then None
          else navigate array
                 (self\<lparr> self_setups :=
                          (case pkg_setup pkg of None \<Rightarrow> self_setups self
                           | Some f \<Rightarrow> self_setups self @ [f]),
                        self_finallies :=
                          (case pkg_finally pkg of None \<Rightarrow> self_finallies self
                           | Some f \<Rightarrow> f # self_finallies self),
                        self_tests := map_of (subpackages pkg) key \<rparr>))"

text \<open>\<open>ready\<close>, source lines 55 to 70: with no package path it returns at once.\<close>

definition ready :: "ccm_instance \<Rightarrow> (jsval + ccm_instance) option" where
  "ready self =
     (case self_package self of
        None \<Rightarrow> Some (Inr self)
      | Some p \<Rightarrow> if p = [] then Some (Inr self) else navigate (split_dot p) self)"

text \<open>
  \<open>start\<close>, source lines 72 to 100: fresh result data, then \<open>processPackage\<close> on the
  configured path and package. The default values of the parameters apply when the
  path or the package is \<open>undefined\<close>. The result is the result data as \<open>getValue\<close>
  returns it afterwards, the calls made, and the error if the run ended with one.
  The finish actions of \<open>$.onFinish\<close> are not modelled.
\<close>

definition initial_results :: results where
  "initial_results = \<lparr> executed = 0, passed = 0, failed = 0, details = Map.empty \<rparr>"

definition initial_state :: state where
  "initial_state = \<lparr> results = initial_results, trace = [] \<rparr>"

definition start :: "ccm_instance \<Rightarrow> state \<times> jsval option" where
  "start self =
     processPackage self
       (case self_package self of None \<Rightarrow> [] | Some p \<Rightarrow> p)
       (case self_tests self of None \<Rightarrow> Package None None None [] | Some pkg \<Rightarrow> pkg)
       (self_setups self) (self_finallies self)
       initial_state"

subsection \<open>Notions used in the statements\<close>

text \<open>A function that returns normally on every suite.\<close>

definition never_throws :: "jsfun \<Rightarrow> bool" where
  "never_throws f = (\<forall>s. snd (body f s) = None)"

text \<open>The suite as a call of \<open>f\<close> leaves it.\<close>

definition suite_after :: "jsfun \<Rightarrow> suite \<Rightarrow> suite" where
  "suite_after f s = fst (body f s)"

text \<open>
  The suite after the \<open>try\<close> statement around the call of a unit test, the error
  with which the statement ends, if any, and whether the \<open>catch\<close> block throws: the
  test has thrown \<open>null\<close> or \<open>undefined\<close>, or its promise was rejected with one of
  them, and has left \<open>suite.abort\<close> unset.
\<close>

definition caught :: "jsfun \<Rightarrow> suite \<Rightarrow> suite" where
  "caught test s = fst (fst (try_test test (s, [])))"

definition catch_error :: "jsfun \<Rightarrow> suite \<Rightarrow> jsval option" where
  "catch_error test s = snd (try_test test (s, []))"

definition catch_throws :: "jsfun \<Rightarrow> suite \<Rightarrow> bool" where
  "catch_throws test s =
     (case body test s of
        (s', None) \<Rightarrow> False
      | (s', Some e) \<Rightarrow> \<not> abort s' \<and> is_nullish e)"

text \<open>
  The suite as \<open>showResult\<close> leaves it, and with it the suite that the first finally
  function of a unit test receives.
\<close>

definition shown :: "ccm_instance \<Rightarrow> suite \<Rightarrow> suite" where
  "shown self s = fst (showResult self [] (Fun [] (\<lambda>x. (x, None))) s initial_results)"

text \<open>
  The number of unit tests in a package tree, and the unit tests and the hooks that
  occur in it.
\<close>

fun count_tests :: "package \<Rightarrow> nat" where
  "count_tests (Package su ts fi subs) =
     (case ts of None \<Rightarrow> 0 | Some tsts \<Rightarrow> length tsts)
     + sum_list (map (\<lambda>kv. count_tests (snd kv)) subs)"

fun tests_of :: "package \<Rightarrow> jsfun set" where
  "tests_of (Package su ts fi subs) =
     (case ts of None \<Rightarrow> {} | Some tsts \<Rightarrow> set tsts) \<union> (\<Union>kv \<in> set subs. tests_of (snd kv))"

fun hooks_of :: "package \<Rightarrow> jsfun set" where
  "hooks_of (Package su ts fi subs) =
     set_option su \<union> set_option fi \<union> (\<Union>kv \<in> set subs. hooks_of (snd kv))"

text \<open>Result data in which every executed test is counted as passed or as failed.\<close>

definition counted :: "results \<Rightarrow> bool" where
  "counted r = (executed r = passed r + failed r)"

subsection \<open>Example functions and instances\<close>

text \<open>
  The setup and finally functions and some of the unit tests of resources/tests.js,
  hooks that throw, and an instance without website area.
\<close>

definition tests_setup :: jsfun where
  "tests_setup =
     Fun ''setup''
       (\<lambda>s. (s\<lparr>custom := (custom s)(''numbers'' := JArr 1 [JNum 1, JNum 2, JNum 3])\<rparr>, None))"

definition tests_finally :: jsfun where
  "tests_finally =
     Fun ''finally'' (\<lambda>s. (s\<lparr>custom := (custom s)(''numbers'' := JUndefined)\<rparr>, None))"

definition test_passed :: jsfun where
  "test_passed = Fun ''passed'' (\<lambda>s. (suite_passed s, None))"

definition test_failed :: jsfun where
  "test_failed = Fun ''failed'' (\<lambda>s. (suite_failed JUndefined s, None))"

definition catchError :: jsfun where
  "catchError = Fun ''catchError'' (\<lambda>s. (s, Some (error_object ''Error'' [])))"

definition hasNumbers :: jsfun where
  "hasNumbers = Fun ''hasNumbers'' (\<lambda>s. (assertTrue (custom s ''numbers'') s, None))"

definition broken_setup :: jsfun where
  "broken_setup =
     Fun ''brokenSetup'' (\<lambda>s. (s, Some (error_object ''Error'' ''down'')))"

text \<open>A finally function that throws when the test has not passed.\<close>

definition strict_finally :: jsfun where
  "strict_finally =
     Fun ''finally''
       (\<lambda>s. (s, if truthy (result s) then None
                 else Some (error_object ''Error'' ''test failed'')))"

text \<open>The package of resources/tests.js, with four of its tests.\<close>

definition tests_js :: package where
  "tests_js =
     Package (Some tests_setup) (Some [test_passed, test_failed]) (Some tests_finally)
       [(''subpackage'', Package None (Some [catchError, hasNumbers]) None [])]"

text \<open>A package with the finally function that throws.\<close>

definition strict_js :: package where
  "strict_js =
     Package (Some tests_setup) (Some [test_passed, test_failed, hasNumbers]) (Some strict_finally)
       [(''child'', Package None (Some [hasNumbers]) None [])]"

text \<open>A unit test that throws a RangeError with a message.\<close>

definition range_error_test :: jsfun where
  "range_error_test = Fun ''tooBig'' (\<lambda>s. (s, Some (error_object ''RangeError'' ''too big'')))"

text \<open>
  A package tree in which the setup function of the package \<open>child.grand\<close> throws.
\<close>

definition grand_js :: package where
  "grand_js =
     Package (Some broken_setup) (Some [hasNumbers, test_failed]) None
       [(''deep'', Package None (Some [test_passed]) None [])]"

definition child_js :: package where
  "child_js =
     Package None None None
       [(''grand'', grand_js), (''cousin'', Package None (Some [test_passed]) None [])]"

definition deep_js :: package where
  "deep_js =
     Package (Some tests_setup) (Some [test_passed]) None
       [(''child'', child_js), (''sibling'', Package None (Some [test_passed]) None [])]"

definition headless :: "string option \<Rightarrow> package \<Rightarrow> ccm_instance" where
  "headless path pkg =
     \<lparr> stringify = JSON_stringify, escapeHTML = (\<lambda>v. v), self_element = False,
       self_package = path, self_tests = Some pkg, self_setups = [], self_finallies = [] \<rparr>"

section \<open>Properties of the assertion operations\<close>

subsection \<open>The abort latch\<close>

lemma setResult_abort: "abort s \<Longrightarrow> setResult res msg s = s"
  by (simp add: setResult_def)

lemma perform_abort: "abort s \<Longrightarrow> perform c s = s"
  by (cases c)
     (simp_all add: suite_passed_def suite_failed_def assertTrue_def assertFalse_def
        assertSame_def assertEquals_def assertNotSame_def assertNotEquals_def Let_def
        setResult_abort)

lemma perform_all_abort: "abort s \<Longrightarrow> perform_all cs s = s"
  by (induction cs) (simp_all add: perform_abort)

lemma setResult_result: "\<not> abort s \<Longrightarrow> result (setResult res msg s) = JBool res"
  by (simp add: setResult_def Let_def)

lemma setResult_latch: "\<not> abort s \<Longrightarrow> abort (setResult res msg s) = (\<not> res)"
  by (simp add: setResult_def Let_def)

lemma perform_latch:
  "\<not> abort s \<Longrightarrow> result (perform c s) = JBool False \<Longrightarrow> abort (perform c s)"
  by (cases c)
     (simp_all add: suite_passed_def suite_failed_def assertTrue_def assertFalse_def
        assertSame_def assertEquals_def assertNotSame_def assertNotEquals_def
        setResult_def Let_def split: if_splits)

text \<open>
  C2, as the code has it. The latch \<open>abort\<close> is set by a call that records a failure,
  not by a call that records success. On a suite whose latch is not set, a call that
  records the result \<open>false\<close> sets the latch, and every sequence of later calls leaves
  the whole suite, with \<open>result\<close>, \<open>message\<close>, \<open>expected\<close> and \<open>actual\<close>, as that call
  left it: the first recorded failure is final.
\<close>

theorem failing_call_is_terminal:
  assumes "\<not> abort s" and "result (perform c s) = JBool False"
  shows "abort (perform c s) \<and> perform_all cs (perform c s) = perform c s"
  using assms by (simp add: perform_latch perform_all_abort)

text \<open>
  The theorem at a new suite: a failing \<open>assertSame(1, 2)\<close>, followed by \<open>passed()\<close> and
  \<open>failed("late")\<close>.
\<close>

theorem failing_call_is_terminal_witness:
  "\<not> abort new_suite
   \<and> result (perform (AssertSame (JNum 1) (JNum 2)) new_suite) = JBool False
   \<and> abort (perform (AssertSame (JNum 1) (JNum 2)) new_suite)
   \<and> perform_all [Passed, Failed (JStr ''late'')]
         (perform (AssertSame (JNum 1) (JNum 2)) new_suite)
       = perform (AssertSame (JNum 1) (JNum 2)) new_suite"
proof -
  have a: "\<not> abort new_suite"
    by (simp add: new_suite_def)
  have b: "result (perform (AssertSame (JNum 1) (JNum 2)) new_suite) = JBool False"
    by (simp add: new_suite_def assertSame_def setResult_def expected_actual_def get_prop_def
          loose_eq_def loose_prim_def is_object_def is_nullish_def)
  from failing_call_is_terminal [OF a b, of "[Passed, Failed (JStr ''late'')]"] a b
  show ?thesis by simp
qed

text \<open>
  C2 as stated fails: after \<open>passed()\<close> as the first call on a new suite, the second
  call \<open>failed("late")\<close> is not ignored. It turns the result from \<open>true\<close> to \<open>false\<close> and
  stores its message.
\<close>

theorem first_call_not_terminal_counterexample:
  "result (perform_all [Passed] new_suite) = JBool True
   \<and> result (perform_all [Passed, Failed (JStr ''late'')] new_suite) = JBool False
   \<and> message (perform_all [Passed, Failed (JStr ''late'')] new_suite) = JStr ''late''"
  by (simp add: new_suite_def suite_passed_def suite_failed_def setResult_def)

subsection \<open>Evaluation of the host functions\<close>

text \<open>Unfolding the host functions on literal values.\<close>

lemmas js_eval =
  loose_eq_def loose_prim_def is_object_def is_nullish_def string_to_number_def trim_def
  is_ws_def digit_val_def JSON_stringify_def json_quote_def json_escape_def join_def
  number_to_string_def digits_of.simps digit_char_def expected_actual_def get_prop_def

subsection \<open>One unit test\<close>

lemma call_fun_eq:
  "call_fun f (s, tr) = ((fst (body f s), tr @ [Call f s]), snd (body f s))"
  by (simp add: call_fun_def split: prod.splits)

lemma caught_eq:
  "caught test s =
     (case snd (body test s) of
        None \<Rightarrow> fst (body test s)
      | Some e \<Rightarrow> if abort (fst (body test s)) \<or> is_nullish e then fst (body test s)
                  else setResult False (JStr (error_text e)) (fst (body test s)))"
  by (simp add: caught_def try_test_def call_fun_eq split: option.splits)

lemma catch_error_eq:
  "catch_error test s =
     (case snd (body test s) of
        None \<Rightarrow> None
      | Some e \<Rightarrow> if \<not> abort (fst (body test s)) \<and> is_nullish e then Some (type_error e)
                  else None)"
  by (simp add: catch_error_def try_test_def call_fun_eq split: option.splits)

lemma catch_error_None: "(catch_error test s = None) = (\<not> catch_throws test s)"
  by (simp add: catch_error_eq catch_throws_def split: option.splits prod.splits)

lemma try_test_eq:
  "try_test test (s, tr) = ((caught test s, tr @ [Call test s]), catch_error test s)"
  by (simp add: caught_def catch_error_def try_test_def call_fun_eq split: option.splits)

lemma fst_showResult:
  "fst (showResult self p test s res) = shown self s"
  by (simp add: showResult_def shown_def Let_def)

lemma runTest_eq:
  "runTest self p sups fins test st =
     (let a = asyncForEach sups call_fun (new_suite, trace st) in
      case snd a of
        Some e \<Rightarrow> (st\<lparr>trace := snd (fst a)\<rparr>, Some e)
      | None \<Rightarrow>
          (let s1 = fst (fst a);
               tr2 = snd (fst a) @ [Call test s1];
               res1 = (results st)\<lparr>executed := executed (results st) + 1\<rparr>
           in case catch_error test s1 of
                Some e \<Rightarrow> (\<lparr>results = res1, trace = tr2\<rparr>, Some e)
              | None \<Rightarrow>
                  (let b = asyncForEach fins call_fun (shown self (caught test s1), tr2)
                   in (\<lparr> results = snd (showResult self p test (caught test s1) res1),
                          trace = snd (fst b) \<rparr>, snd b))))"
proof -
  obtain s1 tr1 r where A: "asyncForEach sups call_fun (new_suite, trace st) = ((s1, tr1), r)"
    by (metis surj_pair)
  obtain s3 res2 where B:
    "showResult self p test (caught test s1)
       ((results st)\<lparr>executed := executed (results st) + 1\<rparr>) = (s3, res2)"
    by (metis surj_pair)
  have s3: "s3 = shown self (caught test s1)"
    using fst_showResult [of self p test "caught test s1"] B by (metis fst_conv)
  obtain s4 tr3 r' where C:
    "asyncForEach fins call_fun (s3, tr1 @ [Call test s1]) = ((s4, tr3), r')"
    by (metis surj_pair)
  show ?thesis
  proof (cases r)
    case None
    show ?thesis
    proof (cases "catch_error test s1")
      case None
      with \<open>r = None\<close> A B C s3 show ?thesis
        by (simp add: runTest_def try_test_eq Let_def)
    next
      case (Some e)
      with \<open>r = None\<close> A show ?thesis
        by (simp add: runTest_def try_test_eq Let_def)
    qed
  next
    case (Some e)
    with A show ?thesis
      by (simp add: runTest_def)
  qed
qed

lemma runTest_no_hooks:
  "runTest self p [] [] test st =
     (case catch_error test new_suite of
        Some e \<Rightarrow>
          (\<lparr> results = (results st)\<lparr>executed := executed (results st) + 1\<rparr>,
             trace = trace st @ [Call test new_suite] \<rparr>, Some e)
      | None \<Rightarrow>
          (\<lparr> results = snd (showResult self p test (caught test new_suite)
                             ((results st)\<lparr>executed := executed (results st) + 1\<rparr>)),
             trace = trace st @ [Call test new_suite] \<rparr>, None))"
  by (simp add: runTest_eq Let_def split: option.splits)

lemma showResult_counters:
  "passed (snd (showResult self p test s r)) = (if truthy (result s) then passed r + 1 else passed r)"
  "failed (snd (showResult self p test s r)) = (if truthy (result s) then failed r else failed r + 1)"
  "executed (snd (showResult self p test s r)) = executed r"
  by (simp_all add: showResult_def Let_def)

lemma shown_eq:
  "shown self s =
     (if \<not> truthy (result s) \<and> expected s \<noteq> JUndefined \<and> actual s \<noteq> JUndefined
         \<and> self_element self
      then s\<lparr> expected := escapeHTML self (if typeof (expected s) = ''object''
                                            then stringify self (expected s) else expected s),
               actual := escapeHTML self (if typeof (actual s) = ''object''
                                          then stringify self (actual s) else actual s) \<rparr>
      else s)"
  by (simp add: shown_def showResult_def Let_def)

lemma showResult_details:
  "details (snd (showResult self p test s res)) =
     (details res)(p @ ''.'' @ fname test \<mapsto>
        (if \<not> truthy (result s) \<and> expected s \<noteq> JUndefined \<and> actual s \<noteq> JUndefined
         then Comparison (expected (shown self s)) (actual (shown self s))
         else if truthy (message s) then Plain (message s)
         else Plain (result s)))"
  by (simp add: showResult_def Let_def shown_eq)

lemma catch_error_returns [simp]: "catch_error (Fun n (\<lambda>s. (f s, None))) s = None"
  by (simp add: catch_error_eq)

lemma caught_returns [simp]: "caught (Fun n (\<lambda>s. (f s, None))) s = f s"
  by (simp add: caught_eq)

text \<open>
  C4. On a new suite \<open>assertSame\<close> records the outcome of the loose comparison and
  \<open>assertNotSame\<close> the negated outcome of the strict comparison. The number 1 and the
  string \<open>"1"\<close> are loosely equal and not strictly equal, so a unit test whose only
  assertion is \<open>assertSame(1, "1")\<close> is counted as passed with the detail \<open>true\<close>, and
  so is a unit test whose only assertion is \<open>assertNotSame(1, "1")\<close>.
\<close>

theorem assertSame_loose_assertNotSame_strict:
  "result (assertSame e a new_suite) = JBool (loose_eq e a)
   \<and> result (assertNotSame e a new_suite) = JBool (\<not> strict_eq e a)
   \<and> loose_eq (JNum 1) (JStr ''1'') \<and> \<not> strict_eq (JNum 1) (JStr ''1'')
   \<and> results (fst (runTest self p [] [] (Fun n (\<lambda>s. (assertSame (JNum 1) (JStr ''1'') s, None))) st))
       = (results st)\<lparr> executed := executed (results st) + 1,
                        passed := passed (results st) + 1,
                        details := (details (results st))(p @ ''.'' @ n \<mapsto> Plain (JBool True)) \<rparr>
   \<and> results (fst (runTest self p [] [] (Fun n (\<lambda>s. (assertNotSame (JNum 1) (JStr ''1'') s, None))) st))
       = (results st)\<lparr> executed := executed (results st) + 1,
                        passed := passed (results st) + 1,
                        details := (details (results st))(p @ ''.'' @ n \<mapsto> Plain (JBool True)) \<rparr>"
proof -
  have l: "loose_eq (JNum 1) (JStr ''1'')" by (simp add: js_eval)
  have s: "\<not> strict_eq (JNum 1) (JStr ''1'')" by simp
  have 1: "result (assertSame e a new_suite) = JBool (loose_eq e a)"
    by (simp add: assertSame_def setResult_result new_suite_def)
  have 2: "result (assertNotSame e a new_suite) = JBool (\<not> strict_eq e a)"
    by (simp add: assertNotSame_def setResult_result new_suite_def)
  have 3: "assertSame (JNum 1) (JStr ''1'') new_suite = new_suite\<lparr>result := JBool True\<rparr>"
    using l by (simp add: assertSame_def setResult_def new_suite_def)
  have 4: "assertNotSame (JNum 1) (JStr ''1'') new_suite = new_suite\<lparr>result := JBool True\<rparr>"
    by (simp add: assertNotSame_def setResult_def new_suite_def)
  have 5: "snd (showResult self p (Fun n b) (new_suite\<lparr>result := JBool True\<rparr>) r)
      = r\<lparr>passed := passed r + 1, details := (details r)(p @ ''.'' @ n \<mapsto> Plain (JBool True))\<rparr>" for b r
    by (simp add: showResult_def Let_def new_suite_def)
  show ?thesis
    by (simp add: l 1 2 runTest_no_hooks 3 4 5)
qed

lemma json_text_object: "typeof v = ''object'' \<Longrightarrow> \<exists>t. json_text v = Some t"
  by (cases v) simp_all

lemma strict_eq_stringify:
  assumes "typeof e = ''object''" and "typeof a = ''object''"
  shows "strict_eq (JSON_stringify e) (JSON_stringify a) = (json_text e = json_text a)"
proof -
  from assms obtain t u where "json_text e = Some t" "json_text a = Some u"
    using json_text_object by blast
  then show ?thesis by (simp add: JSON_stringify_def)
qed

text \<open>
  C7. For object-typed arguments and no \<open>delta\<close>, \<open>assertEquals\<close> is \<open>setResult\<close> with
  the outcome of comparing the two JSON texts, and with the two texts as expected and
  actual value; so on a new suite it records success exactly if the texts are equal.
  Arguments that are not object-typed are compared strictly as they are.
  The text of \<open>{a: 1}\<close> consists of the seven characters of \<open>{"a":1}\<close>. Two objects
  \<open>{a: 1}\<close>, whatever their identities, give success; \<open>{a: 1}\<close> and \<open>{a: 2}\<close> give a
  failure that records the two texts. \<open>assertSame\<close> on two objects \<open>{a: 1}\<close> records
  success only if they are the same object. A unit test calling \<open>assertEquals\<close> on two
  distinct objects \<open>{a: 1}\<close> is counted as passed, one calling \<open>assertSame\<close> on them
  as failed.
\<close>

theorem assertEquals_by_content_assertSame_by_reference:
  "(typeof e = ''object'' \<and> typeof a = ''object'' \<longrightarrow>
      assertEquals e a JUndefined s
        = setResult (json_text e = json_text a)
            (expected_actual (JSON_stringify e) (JSON_stringify a)) s)
   \<and> (typeof e = ''object'' \<and> typeof a = ''object'' \<longrightarrow>
        result (assertEquals e a JUndefined new_suite) = JBool (json_text e = json_text a))
   \<and> (typeof e \<noteq> ''object'' \<and> typeof a \<noteq> ''object'' \<longrightarrow>
        assertEquals e a JUndefined s = setResult (strict_eq e a) (expected_actual e a) s)
   \<and> JSON_stringify (JObj r1 [(''a'', JNum 1)])
       = JStr [CHR ''{'', CHR 0x22, CHR ''a'', CHR 0x22, CHR '':'', CHR ''1'', CHR ''}'']
   \<and> assertEquals (JObj r1 [(''a'', JNum 1)]) (JObj r2 [(''a'', JNum 1)]) JUndefined new_suite
       = new_suite\<lparr>result := JBool True\<rparr>
   \<and> assertEquals (JObj r1 [(''a'', JNum 1)]) (JObj r2 [(''a'', JNum 2)]) JUndefined new_suite
       = new_suite\<lparr> result := JBool False, abort := True,
           expected := JStr [CHR ''{'', CHR 0x22, CHR ''a'', CHR 0x22, CHR '':'', CHR ''1'', CHR ''}''],
           actual := JStr [CHR ''{'', CHR 0x22, CHR ''a'', CHR 0x22, CHR '':'', CHR ''2'', CHR ''}''] \<rparr>
   \<and> result (assertSame (JObj r1 [(''a'', JNum 1)]) (JObj r2 [(''a'', JNum 1)]) new_suite)
       = JBool (r1 = r2)
   \<and> results (fst (runTest self p [] []
        (Fun n (\<lambda>s. (assertEquals (JObj 1 [(''a'', JNum 1)]) (JObj 2 [(''a'', JNum 1)]) JUndefined s, None))) st))
       = (results st)\<lparr> executed := executed (results st) + 1,
                        passed := passed (results st) + 1,
                        details := (details (results st))(p @ ''.'' @ n \<mapsto> Plain (JBool True)) \<rparr>
   \<and> passed (results (fst (runTest self p [] []
        (Fun n (\<lambda>s. (assertSame (JObj 1 [(''a'', JNum 1)]) (JObj 2 [(''a'', JNum 1)]) s, None))) st)))
       = passed (results st)
   \<and> failed (results (fst (runTest self p [] []
        (Fun n (\<lambda>s. (assertSame (JObj 1 [(''a'', JNum 1)]) (JObj 2 [(''a'', JNum 1)]) s, None))) st)))
       = failed (results st) + 1"
proof -
  have g: "assertEquals e a JUndefined s
        = setResult (json_text e = json_text a)
            (expected_actual (JSON_stringify e) (JSON_stringify a)) s"
    if "typeof e = ''object'' \<and> typeof a = ''object''" for s
    using that by (simp add: assertEquals_def Let_def strict_eq_stringify)
  have h: "result (assertEquals e a JUndefined new_suite) = JBool (json_text e = json_text a)"
    if "typeof e = ''object'' \<and> typeof a = ''object''"
    using g [OF that] by (simp add: setResult_result new_suite_def)
  have i: "assertEquals e a JUndefined s = setResult (strict_eq e a) (expected_actual e a) s"
    if "typeof e \<noteq> ''object'' \<and> typeof a \<noteq> ''object''"
    using that by (simp add: assertEquals_def Let_def)
  have j: "JSON_stringify (JObj r [(''a'', JNum 1)])
       = JStr [CHR ''{'', CHR 0x22, CHR ''a'', CHR 0x22, CHR '':'', CHR ''1'', CHR ''}'']" for r
    by (simp add: js_eval)
  have 1: "assertEquals (JObj r1 [(''a'', JNum 1)]) (JObj r2 [(''a'', JNum 1)]) JUndefined new_suite
     = new_suite\<lparr>result := JBool True\<rparr>" for r1 r2
    by (simp add: assertEquals_def Let_def setResult_def new_suite_def js_eval)
  have u: "assertEquals (JObj r1 [(''a'', JNum 1)]) (JObj r2 [(''a'', JNum 2)]) JUndefined new_suite
       = new_suite\<lparr> result := JBool False, abort := True,
           expected := JStr [CHR ''{'', CHR 0x22, CHR ''a'', CHR 0x22, CHR '':'', CHR ''1'', CHR ''}''],
           actual := JStr [CHR ''{'', CHR 0x22, CHR ''a'', CHR 0x22, CHR '':'', CHR ''2'', CHR ''}''] \<rparr>"
    by (simp add: assertEquals_def Let_def setResult_def new_suite_def js_eval)
  have 2: "result (assertSame (JObj r1 [(''a'', JNum 1)]) (JObj r2 [(''a'', JNum 1)]) new_suite)
     = JBool (r1 = r2)" for r1 r2
    by (simp add: assertSame_def setResult_result new_suite_def loose_eq_def is_object_def)
  have 3: "snd (showResult self p (Fun n b) (new_suite\<lparr>result := JBool True\<rparr>) r)
      = r\<lparr>passed := passed r + 1, details := (details r)(p @ ''.'' @ n \<mapsto> Plain (JBool True))\<rparr>" for b r
    by (simp add: showResult_def Let_def new_suite_def)
  have 4: "\<not> truthy (result (assertSame (JObj 1 [(''a'', JNum 1)]) (JObj 2 [(''a'', JNum 1)]) new_suite))"
    by (simp add: 2)
  have r: "results (fst (runTest self p [] []
        (Fun n (\<lambda>s. (assertEquals (JObj 1 [(''a'', JNum 1)]) (JObj 2 [(''a'', JNum 1)]) JUndefined s, None))) st))
       = (results st)\<lparr> executed := executed (results st) + 1,
                        passed := passed (results st) + 1,
                        details := (details (results st))(p @ ''.'' @ n \<mapsto> Plain (JBool True)) \<rparr>"
    by (simp add: runTest_no_hooks 1 3)
  have q: "passed (results (fst (runTest self p [] []
        (Fun n (\<lambda>s. (assertSame (JObj 1 [(''a'', JNum 1)]) (JObj 2 [(''a'', JNum 1)]) s, None))) st)))
       = passed (results st)"
    "failed (results (fst (runTest self p [] []
        (Fun n (\<lambda>s. (assertSame (JObj 1 [(''a'', JNum 1)]) (JObj 2 [(''a'', JNum 1)]) s, None))) st)))
       = failed (results st) + 1"
    using 4 by (simp_all add: runTest_no_hooks showResult_counters)
  from g h i j 1 u 2 r q show ?thesis by blast
qed

text \<open>
  The theorem at an object and an array with different texts, which \<open>assertEquals\<close>
  fails, and at two distinct arrays \<open>[1]\<close>, which it passes.
\<close>

theorem assertEquals_by_content_assertSame_by_reference_witness:
  "typeof (JObj 1 [(''a'', JNum 1)]) = ''object'' \<and> typeof (JArr 2 [JNum 1]) = ''object''
   \<and> json_text (JObj 1 [(''a'', JNum 1)])
       = Some [CHR ''{'', CHR 0x22, CHR ''a'', CHR 0x22, CHR '':'', CHR ''1'', CHR ''}'']
   \<and> json_text (JArr 2 [JNum 1]) = Some ''[1]''
   \<and> result (assertEquals (JObj 1 [(''a'', JNum 1)]) (JArr 2 [JNum 1]) JUndefined new_suite)
       = JBool False
   \<and> typeof JNull = ''object''
   \<and> result (assertEquals (JArr 2 [JNum 1]) (JArr 3 [JNum 1]) JUndefined new_suite) = JBool True"
proof -
  have t: "typeof (JObj 1 [(''a'', JNum 1)]) = ''object'' \<and> typeof (JArr 2 [JNum 1]) = ''object''"
    "typeof (JArr 2 [JNum 1]) = ''object'' \<and> typeof (JArr 3 [JNum 1]) = ''object''"
    "typeof JNull = ''object''"
    by simp_all
  have j: "json_text (JObj 1 [(''a'', JNum 1)])
       = Some [CHR ''{'', CHR 0x22, CHR ''a'', CHR 0x22, CHR '':'', CHR ''1'', CHR ''}'']"
    "json_text (JArr 2 [JNum 1]) = Some ''[1]''" "json_text (JArr 3 [JNum 1]) = Some ''[1]''"
    by (simp_all add: js_eval)
  note w1 = assertEquals_by_content_assertSame_by_reference
              [of "JObj 1 [(''a'', JNum 1)]" "JArr 2 [JNum 1]"]
  note w2 = assertEquals_by_content_assertSame_by_reference
              [of "JArr 2 [JNum 1]" "JArr 3 [JNum 1]"]
  from w1 t(1) have 1:
    "result (assertEquals (JObj 1 [(''a'', JNum 1)]) (JArr 2 [JNum 1]) JUndefined new_suite)
       = JBool (json_text (JObj 1 [(''a'', JNum 1)]) = json_text (JArr 2 [JNum 1]))"
    by blast
  from w2 t(2) have 2:
    "result (assertEquals (JArr 2 [JNum 1]) (JArr 3 [JNum 1]) JUndefined new_suite)
       = JBool (json_text (JArr 2 [JNum 1]) = json_text (JArr 3 [JNum 1]))"
    by blast
  from 1 j have a1: "result (assertEquals (JObj 1 [(''a'', JNum 1)]) (JArr 2 [JNum 1]) JUndefined new_suite)
       = JBool False"
    by simp
  from 2 j have a2: "result (assertEquals (JArr 2 [JNum 1]) (JArr 3 [JNum 1]) JUndefined new_suite) = JBool True"
    by simp
  from t j a1 a2 show ?thesis by blast
qed

lemma error_text_object: "error_text (error_object n m) = n @ (if m \<noteq> [] then '': '' @ m else [])"
  by (simp add: error_text_def error_object_def get_prop_def)

lemma error_object_not_nullish [simp]: "\<not> is_nullish (error_object n m)"
  by (simp add: error_object_def is_nullish_def)

text \<open>
  C5, as the code has it. Let the unit test throw the value \<open>e\<close> and leave the suite
  \<open>s'\<close>, and let \<open>abort\<close> be set in \<open>s'\<close> or \<open>e\<close> be neither \<open>null\<close> nor \<open>undefined\<close>.
  Then the \<open>try\<close> statement ends without error. If \<open>abort\<close> is set, the suite stays
  as it is. Otherwise a failure is recorded, with the message
  \<open>e.name + (e.message ? ": " + e.message : "")\<close> when that text is not empty, and with
  no message when it is empty; for an error object the text is its name, followed
  by a colon, a blank and its message if the message is not empty. Without setup and
  finally functions the run of such a test on its new suite ends without error. A
  unit test that calls \<open>suite.failed("boom")\<close> and then throws any value gets the
  detail \<open>"boom"\<close>.
\<close>

theorem thrown_error_is_recorded:
  assumes "body test s = (s', Some e)" and "abort s' \<or> \<not> is_nullish e"
  shows "try_test test (s, tr) =
           ((if abort s' then s'
             else if error_text e = [] then s'\<lparr>result := JBool False, abort := True\<rparr>
             else s'\<lparr>result := JBool False, abort := True, message := JStr (error_text e)\<rparr>,
             tr @ [Call test s]), None)
         \<and> error_text e =
             to_string (get_prop e ''name'')
             @ (if truthy (get_prop e ''message'') then '': '' @ to_string (get_prop e ''message'')
                else [])
         \<and> error_text (error_object n m) = n @ (if m \<noteq> [] then '': '' @ m else [])
         \<and> (s = new_suite \<longrightarrow> snd (runTest self p [] [] test st) = None)
         \<and> details (results (fst (runTest self p [] fins
               (Fun k (\<lambda>x. (suite_failed (JStr ''boom'') x, Some v))) st))) (p @ ''.'' @ k)
             = Some (Plain (JStr ''boom''))"
proof -
  have a: "try_test test (s, tr) =
           ((if abort s' then s'
             else if error_text e = [] then s'\<lparr>result := JBool False, abort := True\<rparr>
             else s'\<lparr>result := JBool False, abort := True, message := JStr (error_text e)\<rparr>,
             tr @ [Call test s]), None)"
    using assms by (auto simp add: try_test_eq caught_eq catch_error_eq setResult_def Let_def)
  have b: "snd (runTest self p [] [] test st) = None" if "s = new_suite"
    using assms that by (auto simp add: runTest_no_hooks catch_error_eq)
  have c: "suite_failed (JStr ''boom'') new_suite
       = new_suite\<lparr>result := JBool False, abort := True, message := JStr ''boom''\<rparr>"
    by (simp add: suite_failed_def setResult_def new_suite_def)
  have d: "details (snd (showResult self p (Fun k b)
             (new_suite\<lparr>result := JBool False, abort := True, message := JStr ''boom''\<rparr>) r)) (p @ ''.'' @ k)
           = Some (Plain (JStr ''boom''))" for b r
    by (simp add: showResult_def Let_def new_suite_def)
  have e: "details (results (fst (runTest self p [] fins
               (Fun k (\<lambda>x. (suite_failed (JStr ''boom'') x, Some v))) st))) (p @ ''.'' @ k)
             = Some (Plain (JStr ''boom''))"
    using d by (simp add: runTest_eq caught_eq catch_error_eq c Let_def)
  have t: "error_text e =
             to_string (get_prop e ''name'')
             @ (if truthy (get_prop e ''message'') then '': '' @ to_string (get_prop e ''message'')
                else [])"
    by (simp add: error_text_def)
  have u: "error_text (error_object n m) = n @ (if m \<noteq> [] then '': '' @ m else [])"
    by (rule error_text_object)
  from a t u b e show ?thesis by blast
qed

text \<open>
  The theorem at a unit test that throws a RangeError with the message \<open>too big\<close>:
  the recorded message is \<open>RangeError: too big\<close>. At the unit test \<open>catchError\<close> of
  resources/tests.js, which throws \<open>new Error()\<close>, it is \<open>Error\<close>.
\<close>

theorem thrown_error_is_recorded_witness:
  "body range_error_test new_suite = (new_suite, Some (error_object ''RangeError'' ''too big''))
   \<and> \<not> is_nullish (error_object ''RangeError'' ''too big'')
   \<and> try_test range_error_test (new_suite, [])
       = ((new_suite\<lparr>result := JBool False, abort := True,
                      message := JStr ''RangeError: too big''\<rparr>,
           [Call range_error_test new_suite]), None)
   \<and> snd (runTest (headless None (Package None None None [])) ''subpackage'' [] []
            range_error_test initial_state) = None
   \<and> details (results (fst (runTest (headless None (Package None None None [])) ''subpackage'' []
          [tests_finally]
          (Fun ''late'' (\<lambda>x. (suite_failed (JStr ''boom'') x, Some JNull)))
          initial_state))) ''subpackage.late''
       = Some (Plain (JStr ''boom''))
   \<and> body catchError new_suite = (new_suite, Some (error_object ''Error'' []))
   \<and> try_test catchError (new_suite, [])
       = ((new_suite\<lparr>result := JBool False, abort := True, message := JStr ''Error''\<rparr>,
           [Call catchError new_suite]), None)"
proof -
  have b: "body range_error_test new_suite
             = (new_suite, Some (error_object ''RangeError'' ''too big''))"
    by (simp add: range_error_test_def)
  have n: "abort new_suite \<or> \<not> is_nullish (error_object ''RangeError'' ''too big'')"
    "\<not> is_nullish (error_object ''RangeError'' ''too big'')"
    by simp_all
  have b2: "body catchError new_suite = (new_suite, Some (error_object ''Error'' []))"
    by (simp add: catchError_def)
  have n2: "abort new_suite \<or> \<not> is_nullish (error_object ''Error'' [])"
    by simp
  have na: "\<not> abort new_suite"
    by (simp add: new_suite_def)
  have t: "error_text (error_object ''RangeError'' ''too big'') = ''RangeError: too big''"
    "error_text (error_object ''Error'' []) = ''Error''"
    by (simp_all add: error_text_object)
  note w = thrown_error_is_recorded [OF b n(1), of "[]" _ _
             "headless None (Package None None None [])" "''subpackage''" initial_state
             "[tests_finally]" "''late''" JNull]
  note w2 = thrown_error_is_recorded [OF b2 n2, of "[]"]
  from w na t have 1: "try_test range_error_test (new_suite, [])
       = ((new_suite\<lparr>result := JBool False, abort := True,
                      message := JStr ''RangeError: too big''\<rparr>,
           [Call range_error_test new_suite]), None)"
    by simp
  from w have 2: "snd (runTest (headless None (Package None None None [])) ''subpackage'' [] []
            range_error_test initial_state) = None"
    by blast
  from w have 3: "details (results (fst (runTest (headless None (Package None None None [])) ''subpackage'' []
          [tests_finally]
          (Fun ''late'' (\<lambda>x. (suite_failed (JStr ''boom'') x, Some JNull)))
          initial_state))) ''subpackage.late''
       = Some (Plain (JStr ''boom''))"
    by simp
  from w2 na t have 4: "try_test catchError (new_suite, [])
       = ((new_suite\<lparr>result := JBool False, abort := True, message := JStr ''Error''\<rparr>,
           [Call catchError new_suite]), None)"
    by simp
  from b n(2) 1 2 3 b2 4 show ?thesis by blast
qed

text \<open>
  C5 as stated fails for an error whose name and message are both empty: the failure
  is recorded, but the suite gets no message (it stays \<open>undefined\<close> instead of becoming
  the empty string), and the detail is \<open>false\<close>.
\<close>

theorem empty_error_text_counterexample:
  "\<not> is_nullish (error_object [] [])
   \<and> error_text (error_object [] []) = []
   \<and> result (caught (Fun ''t'' (\<lambda>s. (s, Some (error_object [] [])))) new_suite) = JBool False
   \<and> message (caught (Fun ''t'' (\<lambda>s. (s, Some (error_object [] [])))) new_suite) = JUndefined
   \<and> message (caught (Fun ''t'' (\<lambda>s. (s, Some (error_object [] [])))) new_suite)
       \<noteq> JStr (error_text (error_object [] []))
   \<and> details (results (fst (runTest (headless None (Package None None None [])) ''pkg'' [] []
          (Fun ''t'' (\<lambda>s. (s, Some (error_object [] [])))) initial_state))) ''pkg.t''
       = Some (Plain (JBool False))"
  by (simp add: error_text_object caught_eq catch_error_eq setResult_def new_suite_def
        runTest_no_hooks showResult_details)

text \<open>
  A unit test whose promise is rejected without reason, in a package with a second
  test and a finally function: the \<open>catch\<close> block throws a TypeError, which ends the
  run. The test is counted as executed, but neither as passed nor as failed, it gets
  no detail, and neither the finally function nor the second test is called.
\<close>

lemma rejection_without_reason_leaves_the_callback:
  "try_test (Fun ''t'' (\<lambda>s. (s, Some JUndefined))) (new_suite, [])
     = ((new_suite, [Call (Fun ''t'' (\<lambda>s. (s, Some JUndefined))) new_suite]),
        Some (type_error JUndefined))
   \<and> start (headless None
        (Package None (Some [Fun ''t'' (\<lambda>s. (s, Some JUndefined)), test_passed])
           (Some tests_finally) []))
     = (\<lparr> results = initial_results\<lparr>executed := 1\<rparr>,
          trace = [Call (Fun ''t'' (\<lambda>s. (s, Some JUndefined))) new_suite] \<rparr>,
        Some (type_error JUndefined))"
  by (simp add: try_test_eq caught_eq catch_error_eq is_nullish_def new_suite_def start_def
        headless_def runPackageTests_def runTest_eq call_fun_eq initial_state_def
        initial_results_def Let_def)

text \<open>
  C6. \<open>showResult\<close> stores the detail of a unit test under the key
  \<open>package_path + "." + test.name\<close> and changes no other entry. The entry is the pair
  of expected and actual value if the result is falsy and both values are not
  \<open>undefined\<close>; otherwise the message if there is one; otherwise the result. Without
  website area the pair holds the values as the suite has them. For every unit test
  whose setup functions have returned and whose \<open>catch\<close> block does not throw, the
  result data after the test are those that \<open>showResult\<close> produces from the suite that
  the \<open>try\<close> statement has left.
\<close>

theorem details_entry_precedence:
  "details (snd (showResult self p test s res)) (p @ ''.'' @ fname test) =
     Some (if \<not> truthy (result s) \<and> expected s \<noteq> JUndefined \<and> actual s \<noteq> JUndefined
           then Comparison (expected (shown self s)) (actual (shown self s))
           else if truthy (message s) then Plain (message s)
           else Plain (result s))
   \<and> (\<forall>k. k \<noteq> p @ ''.'' @ fname test \<longrightarrow>
          details (snd (showResult self p test s res)) k = details res k)
   \<and> (\<not> self_element self \<longrightarrow> shown self s = s)
   \<and> (snd (asyncForEach sups call_fun (new_suite, trace st)) = None
        \<and> \<not> catch_throws test (fst (fst (asyncForEach sups call_fun (new_suite, trace st))))
        \<longrightarrow>
        results (fst (runTest self p sups fins test st)) =
          snd (showResult self p test
                 (caught test (fst (fst (asyncForEach sups call_fun (new_suite, trace st)))))
                 ((results st)\<lparr>executed := executed (results st) + 1\<rparr>)))"
proof -
  let ?a = "asyncForEach sups call_fun (new_suite, trace st)"
  have 4: "results (fst (runTest self p sups fins test st)) =
          snd (showResult self p test (caught test (fst (fst ?a)))
                 ((results st)\<lparr>executed := executed (results st) + 1\<rparr>))"
    if "snd ?a = None \<and> \<not> catch_throws test (fst (fst ?a))"
  proof -
    from that have "catch_error test (fst (fst ?a)) = None"
      by (simp add: catch_error_None)
    with that show ?thesis
      by (simp add: runTest_eq Let_def)
  qed
  from 4 show ?thesis
    by (simp add: showResult_details shown_eq)
qed

text \<open>
  The theorem at a failing \<open>assertEquals(1, 2)\<close> in the package \<open>subpackage\<close>: the
  detail is the pair of 1 and 2.
\<close>

theorem details_entry_precedence_witness:
  "details (snd (showResult (headless None (Package None None None [])) ''subpackage'' test_failed
             (assertEquals (JNum 1) (JNum 2) JUndefined new_suite) initial_results))
     ''subpackage.failed'' = Some (Comparison (JNum 1) (JNum 2))
   \<and> ''other'' \<noteq> ''subpackage'' @ ''.'' @ fname test_failed
   \<and> details (snd (showResult (headless None (Package None None None [])) ''subpackage'' test_failed
             (assertEquals (JNum 1) (JNum 2) JUndefined new_suite) initial_results)) ''other''
       = details initial_results ''other''
   \<and> \<not> self_element (headless None (Package None None None []))
   \<and> shown (headless None (Package None None None []))
        (assertEquals (JNum 1) (JNum 2) JUndefined new_suite)
       = assertEquals (JNum 1) (JNum 2) JUndefined new_suite
   \<and> snd (asyncForEach [tests_setup] call_fun (new_suite, trace initial_state)) = None
   \<and> \<not> catch_throws test_failed
         (fst (fst (asyncForEach [tests_setup] call_fun (new_suite, trace initial_state))))
   \<and> results (fst (runTest (headless None (Package None None None [])) ''subpackage''
                     [tests_setup] [tests_finally] test_failed initial_state))
       = snd (showResult (headless None (Package None None None [])) ''subpackage'' test_failed
               (caught test_failed
                  (fst (fst (asyncForEach [tests_setup] call_fun (new_suite, trace initial_state)))))
               ((results initial_state)\<lparr>executed := executed (results initial_state) + 1\<rparr>))"
proof -
  have s: "assertEquals (JNum 1) (JNum 2) JUndefined new_suite
             = new_suite\<lparr>result := JBool False, abort := True,
                          expected := JNum 1, actual := JNum 2\<rparr>"
    by (simp add: assertEquals_def setResult_def new_suite_def expected_actual_def get_prop_def)
  have h: "snd (asyncForEach [tests_setup] call_fun (new_suite, trace initial_state)) = None"
    by (simp add: call_fun_eq tests_setup_def)
  have c: "\<not> catch_throws test_failed
         (fst (fst (asyncForEach [tests_setup] call_fun (new_suite, trace initial_state))))"
    by (simp add: catch_throws_def test_failed_def)
  have k: "''other'' \<noteq> ''subpackage'' @ ''.'' @ fname test_failed"
    by (simp add: test_failed_def)
  have e: "\<not> self_element (headless None (Package None None None []))"
    by (simp add: headless_def)
  let ?s = "assertEquals (JNum 1) (JNum 2) JUndefined new_suite"
  have f: "\<not> truthy (result ?s)" "expected ?s = JNum 1" "actual ?s = JNum 2"
    unfolding s by (simp_all add: new_suite_def)
  have n: "fname test_failed = ''failed''"
    by (simp add: test_failed_def)
  note w = details_entry_precedence [of "headless None (Package None None None [])"
         "''subpackage''" test_failed ?s initial_results "[tests_setup]" initial_state
         "[tests_finally]"]
  from w e have sh: "shown (headless None (Package None None None [])) ?s = ?s"
    by blast
  from w f sh n have 1:
    "details (snd (showResult (headless None (Package None None None [])) ''subpackage''
                     test_failed ?s initial_results)) ''subpackage.failed''
       = Some (Comparison (JNum 1) (JNum 2))"
    by simp
  from w k have 2:
    "details (snd (showResult (headless None (Package None None None [])) ''subpackage''
                     test_failed ?s initial_results)) ''other'' = details initial_results ''other''"
    by blast
  from w h c have 3:
    "results (fst (runTest (headless None (Package None None None [])) ''subpackage''
                     [tests_setup] [tests_finally] test_failed initial_state))
       = snd (showResult (headless None (Package None None None [])) ''subpackage'' test_failed
               (caught test_failed
                  (fst (fst (asyncForEach [tests_setup] call_fun (new_suite, trace initial_state)))))
               ((results initial_state)\<lparr>executed := executed (results initial_state) + 1\<rparr>))"
    by blast
  from 1 k 2 e sh h c 3 show ?thesis
    by blast
qed

text \<open>
  C10. For a suite whose result is falsy, the detail is a pair of expected and actual
  value exactly if neither value is \<open>undefined\<close>. If one of them is \<open>undefined\<close>, the
  detail is the message, if there is one, and the result otherwise, which is \<open>false\<close>
  once a failure has been recorded. A failing \<open>assertSame(undefined, x)\<close> on a new
  suite leaves \<open>expected\<close> undefined, and the detail is \<open>false\<close>.
\<close>

theorem comparison_needs_both_values:
  assumes "\<not> truthy (result s)"
  shows "((\<exists>e a. details (snd (showResult self p test s res)) (p @ ''.'' @ fname test)
                   = Some (Comparison e a))
           = (expected s \<noteq> JUndefined \<and> actual s \<noteq> JUndefined))
       \<and> (expected s = JUndefined \<or> actual s = JUndefined \<longrightarrow>
            details (snd (showResult self p test s res)) (p @ ''.'' @ fname test)
              = Some (if truthy (message s) then Plain (message s) else Plain (result s)))
       \<and> (result s = JBool False \<and> (expected s = JUndefined \<or> actual s = JUndefined)
            \<and> \<not> truthy (message s) \<longrightarrow>
            details (snd (showResult self p test s res)) (p @ ''.'' @ fname test)
              = Some (Plain (JBool False)))
       \<and> (\<not> loose_eq JUndefined x \<longrightarrow>
            expected (assertSame JUndefined x new_suite) = JUndefined
            \<and> details (snd (showResult self p test (assertSame JUndefined x new_suite) res))
                (p @ ''.'' @ fname test) = Some (Plain (JBool False)))"
proof -
  let ?key = "p @ ''.'' @ fname test"
  have a: "(\<exists>e a. details (snd (showResult self p test s res)) ?key = Some (Comparison e a))
           = (expected s \<noteq> JUndefined \<and> actual s \<noteq> JUndefined)"
    using assms by (simp add: showResult_details)
  have b: "expected s = JUndefined \<or> actual s = JUndefined \<longrightarrow>
            details (snd (showResult self p test s res)) ?key
              = Some (if truthy (message s) then Plain (message s) else Plain (result s))"
    by (auto simp add: showResult_details)
  have c: "expected (assertSame JUndefined x new_suite) = JUndefined
            \<and> details (snd (showResult self p test (assertSame JUndefined x new_suite) res)) ?key
                 = Some (Plain (JBool False))"
    if "\<not> loose_eq JUndefined x"
  proof -
    have "assertSame JUndefined x new_suite
             = new_suite\<lparr>result := JBool False, abort := True, actual := x\<rparr>"
      using that
      by (simp add: assertSame_def setResult_def new_suite_def expected_actual_def get_prop_def)
    then show ?thesis
      by (simp add: showResult_details new_suite_def)
  qed
  have d: "result s = JBool False \<and> (expected s = JUndefined \<or> actual s = JUndefined)
            \<and> \<not> truthy (message s) \<longrightarrow>
            details (snd (showResult self p test s res)) ?key = Some (Plain (JBool False))"
    by (auto simp add: showResult_details)
  from a b c d show ?thesis by blast
qed

text \<open>The theorem at a failing \<open>assertSame(undefined, 5)\<close>.\<close>

text \<open>The theorem at a failing \<open>assertSame(undefined, 5)\<close>.\<close>

theorem comparison_needs_both_values_witness:
  "\<not> truthy (result (assertSame JUndefined (JNum 5) new_suite))
   \<and> expected (assertSame JUndefined (JNum 5) new_suite) = JUndefined
   \<and> actual (assertSame JUndefined (JNum 5) new_suite) = JNum 5
   \<and> \<not> loose_eq JUndefined (JNum 5)
   \<and> details (snd (showResult (headless None (Package None None None [])) ''pkg'' hasNumbers
                     (assertSame JUndefined (JNum 5) new_suite) initial_results))
        (''pkg'' @ ''.'' @ fname hasNumbers) = Some (Plain (JBool False))
   \<and> (\<nexists>e a. details (snd (showResult (headless None (Package None None None [])) ''pkg'' hasNumbers
                     (assertSame JUndefined (JNum 5) new_suite) initial_results))
        (''pkg'' @ ''.'' @ fname hasNumbers) = Some (Comparison e a))"
proof -
  have l: "\<not> loose_eq JUndefined (JNum 5)"
    by (simp add: loose_eq_def is_object_def is_nullish_def)
  have s: "assertSame JUndefined (JNum 5) new_suite
             = new_suite\<lparr>result := JBool False, abort := True, actual := JNum 5\<rparr>"
    using l by (simp add: assertSame_def setResult_def new_suite_def expected_actual_def get_prop_def)
  have r: "\<not> truthy (result (assertSame JUndefined (JNum 5) new_suite))"
    by (simp add: s)
  have x: "expected (assertSame JUndefined (JNum 5) new_suite) = JUndefined"
    and a: "actual (assertSame JUndefined (JNum 5) new_suite) = JNum 5"
    unfolding s by (simp_all add: new_suite_def)
  note w = comparison_needs_both_values [OF r, of "headless None (Package None None None [])"
         "''pkg''" hasNumbers initial_results "JNum 5"]
  from w l have c:
    "details (snd (showResult (headless None (Package None None None [])) ''pkg'' hasNumbers
                     (assertSame JUndefined (JNum 5) new_suite) initial_results))
        (''pkg'' @ ''.'' @ fname hasNumbers) = Some (Plain (JBool False))"
    by blast
  from w x have d:
    "\<nexists>e a. details (snd (showResult (headless None (Package None None None [])) ''pkg'' hasNumbers
                     (assertSame JUndefined (JNum 5) new_suite) initial_results))
        (''pkg'' @ ''.'' @ fname hasNumbers) = Some (Comparison e a)"
    by simp
  from r x a l c d show ?thesis
    by blast
qed

section \<open>Properties of the walk over the package tree\<close>

lemma call_fun_never_throws:
  "never_throws f \<Longrightarrow> call_fun f (s, tr) = ((suite_after f s, tr @ [Call f s]), None)"
  by (simp add: call_fun_eq never_throws_def suite_after_def)

lemma hooks_complete:
  "\<forall>f \<in> set fs. never_throws f \<Longrightarrow> snd (asyncForEach fs call_fun st) = None"
proof (induction fs arbitrary: st)
  case Nil
  show ?case by simp
next
  case (Cons f fs)
  obtain s tr where st: "st = (s, tr)" by (cases st)
  from Cons show ?case by (simp add: st call_fun_never_throws)
qed

lemma asyncForEach_append:
  "asyncForEach (xs @ ys) callback st =
     (case asyncForEach xs callback st of
        (st', None) \<Rightarrow> asyncForEach ys callback st'
      | (st', Some e) \<Rightarrow> (st', Some e))"
proof (induction xs arbitrary: st)
  case Nil
  show ?case by simp
next
  case (Cons x xs)
  obtain st' r where "callback x st = (st', r)" by (cases "callback x st")
  with Cons.IH show ?case by (cases r) simp_all
qed

lemma asyncForEach_stops:
  "snd (callback x st) = Some e \<Longrightarrow> asyncForEach (x # xs) callback st = callback x st"
  by (cases "callback x st") auto

lemma runTest_counted:
  "counted (results st) \<Longrightarrow> snd (runTest self p sups fins test st) = None \<Longrightarrow>
     counted (results (fst (runTest self p sups fins test st)))"
  by (auto simp add: runTest_eq Let_def counted_def showResult_counters split: option.splits)

lemma asyncForEach_preserves:
  assumes "\<And>x st. P st \<Longrightarrow> snd (f x st) = None \<Longrightarrow> P (fst (f x st))"
    and "P st" and "snd (asyncForEach xs f st) = None"
  shows "P (fst (asyncForEach xs f st))"
  using assms(2,3)
proof (induction xs arbitrary: st)
  case Nil
  then show ?case by simp
next
  case (Cons x xs)
  obtain st' r where fx: "f x st = (st', r)" by (cases "f x st")
  with Cons.prems(2) have r: "r = None" by (cases r) simp_all
  from assms(1) [OF Cons.prems(1), of x] fx r have "P st'" by simp
  with Cons.IH [of st'] Cons.prems(2) fx r show ?case by simp
qed

lemma runPackageTests_counted:
  "counted (results st) \<Longrightarrow> snd (runPackageTests self p sups fins tsts st) = None \<Longrightarrow>
     counted (results (fst (runPackageTests self p sups fins tsts st)))"
  unfolding runPackageTests_def
  by (rule asyncForEach_preserves [where P = "\<lambda>st. counted (results st)"])
     (simp_all add: runTest_counted)

lemma processPackage_counted:
  "counted (results st) \<Longrightarrow> snd (processPackage self p pkg sups fins st) = None \<Longrightarrow>
     counted (results (fst (processPackage self p pkg sups fins st)))"
  "counted (results st) \<Longrightarrow> snd (processSubpackages self p subs sups fins st) = None \<Longrightarrow>
     counted (results (fst (processSubpackages self p subs sups fins st)))"
proof (induction self p pkg sups fins st and self p subs sups fins st
       rule: processPackage_processSubpackages.induct)
  case (1 self package_path su ts fi subs sups fins st)
  let ?sups1 = "case su of None \<Rightarrow> sups | Some f \<Rightarrow> sups @ [f]"
  let ?fins1 = "case fi of None \<Rightarrow> fins | Some f \<Rightarrow> f # fins"
  let ?r = "case ts of None \<Rightarrow> (st, None)
            | Some tsts \<Rightarrow> runPackageTests self package_path ?sups1 ?fins1 tsts st"
  obtain st1 e where r: "?r = (st1, e)" by (cases ?r)
  have e: "e = None"
    using "1.prems"(2) r by (cases e) (simp_all add: Let_def)
  have c1: "counted (results st1)"
  proof (cases ts)
    case None
    with r "1.prems" show ?thesis by simp
  next
    case (Some tsts)
    with r e have "runPackageTests self package_path ?sups1 ?fins1 tsts st = (st1, None)"
      by simp
    with runPackageTests_counted [OF "1.prems"(1), of self package_path ?sups1 ?fins1 tsts]
    show ?thesis by simp
  qed
  from r e have r': "(st1, None) = ?r" by simp
  have "snd (processSubpackages self package_path subs ?sups1 ?fins1 st1) = None"
    using "1.prems"(2) r e by (simp add: Let_def)
  from "1.IH" [OF refl refl r' refl c1 this] r e show ?case
    by (simp add: Let_def)
next
  case (2 self package_path sups fins st)
  then show ?case by simp
next
  case (3 self package_path key subpackage rest sups fins st)
  let ?q = "(if package_path \<noteq> [] then package_path @ ''.'' else []) @ key"
  obtain st1 e where r: "processPackage self ?q subpackage sups fins st = (st1, e)"
    by (cases "processPackage self ?q subpackage sups fins st")
  have e: "e = None"
    using "3.prems"(2) r by (cases e) simp_all
  have c1: "counted (results st1)" using "3.IH"(1) [OF "3.prems"(1)] r e by simp
  from r e have r': "(st1, None) = processPackage self ?q subpackage sups fins st" by simp
  have "snd (processSubpackages self package_path rest sups fins st1) = None"
    using "3.prems"(2) r e by simp
  from "3.IH"(2) [OF r' refl c1 this] r e show ?case by simp
qed

lemma runTest_executes:
  assumes "\<forall>f \<in> set sups \<union> set fins. never_throws f" and "\<forall>s. \<not> catch_throws test s"
  shows "snd (runTest self p sups fins test st) = None
         \<and> executed (results (fst (runTest self p sups fins test st))) = executed (results st) + 1"
proof -
  have "snd (asyncForEach sups call_fun (new_suite, trace st)) = None"
    using assms by (simp add: hooks_complete)
  moreover have "snd (asyncForEach fins call_fun x) = None" for x
    using assms by (simp add: hooks_complete)
  moreover have "catch_error test s = None" for s
    using assms(2) by (simp add: catch_error_None)
  ultimately show ?thesis
    by (simp add: runTest_eq Let_def showResult_counters)
qed

lemma runPackageTests_executes:
  assumes "\<forall>f \<in> set sups \<union> set fins. never_throws f"
    and "\<forall>t \<in> set tsts. \<forall>s. \<not> catch_throws t s"
  shows "snd (runPackageTests self p sups fins tsts st) = None
         \<and> executed (results (fst (runPackageTests self p sups fins tsts st)))
             = executed (results st) + length tsts"
  using assms(2)
proof (induction tsts arbitrary: st)
  case Nil
  show ?case by (simp add: runPackageTests_def)
next
  case (Cons t ts)
  obtain st1 r where t: "runTest self p sups fins t st = (st1, r)"
    by (cases "runTest self p sups fins t st")
  from Cons.prems have "\<forall>s. \<not> catch_throws t s" by simp
  from runTest_executes [OF assms(1) this, of self p st] t
  have r: "r = None" and e: "executed (results st1) = executed (results st) + 1"
    by simp_all
  from Cons.prems have "\<forall>t \<in> set ts. \<forall>s. \<not> catch_throws t s" by simp
  from Cons.IH [OF this, of st1] t r e show ?case
    by (simp add: runPackageTests_def)
qed

lemma processPackage_executes:
  "\<forall>f \<in> hooks_of pkg \<union> set sups \<union> set fins. never_throws f \<Longrightarrow>
   \<forall>t \<in> tests_of pkg. \<forall>s. \<not> catch_throws t s \<Longrightarrow>
     snd (processPackage self p pkg sups fins st) = None
     \<and> executed (results (fst (processPackage self p pkg sups fins st)))
         = executed (results st) + count_tests pkg"
  "\<forall>f \<in> (\<Union>kv \<in> set subs. hooks_of (snd kv)) \<union> set sups \<union> set fins. never_throws f \<Longrightarrow>
   \<forall>t \<in> (\<Union>kv \<in> set subs. tests_of (snd kv)). \<forall>s. \<not> catch_throws t s \<Longrightarrow>
     snd (processSubpackages self p subs sups fins st) = None
     \<and> executed (results (fst (processSubpackages self p subs sups fins st)))
         = executed (results st) + sum_list (map (\<lambda>kv. count_tests (snd kv)) subs)"
proof (induction self p pkg sups fins st and self p subs sups fins st
       rule: processPackage_processSubpackages.induct)
  case (1 self package_path su ts fi subs sups fins st)
  let ?sups1 = "case su of None \<Rightarrow> sups | Some f \<Rightarrow> sups @ [f]"
  let ?fins1 = "case fi of None \<Rightarrow> fins | Some f \<Rightarrow> f # fins"
  let ?r = "case ts of None \<Rightarrow> (st, None)
            | Some tsts \<Rightarrow> runPackageTests self package_path ?sups1 ?fins1 tsts st"
  have hooks1: "\<forall>f \<in> set ?sups1 \<union> set ?fins1. never_throws f"
    using "1.prems"(1) by (auto split: option.splits)
  have hooks2:
    "\<forall>f \<in> (\<Union>kv \<in> set subs. hooks_of (snd kv)) \<union> set ?sups1 \<union> set ?fins1. never_throws f"
    using "1.prems"(1) by (auto split: option.splits)
  have tests2: "\<forall>t \<in> (\<Union>kv \<in> set subs. tests_of (snd kv)). \<forall>s. \<not> catch_throws t s"
    using "1.prems"(2) by auto
  obtain st1 e where r: "?r = (st1, e)" by (cases ?r)
  have ec: "e = None \<and> executed (results st1)
              = executed (results st) + (case ts of None \<Rightarrow> 0 | Some tsts \<Rightarrow> length tsts)"
  proof (cases ts)
    case None
    with r show ?thesis by simp
  next
    case (Some tsts)
    with r have "runPackageTests self package_path ?sups1 ?fins1 tsts st = (st1, e)"
      by simp
    moreover from Some "1.prems"(2) have "\<forall>t \<in> set tsts. \<forall>s. \<not> catch_throws t s"
      by simp
    ultimately show ?thesis
      using runPackageTests_executes [OF hooks1, of tsts self package_path st] Some
      by simp
  qed
  then have e: "e = None"
    and c1: "executed (results st1)
              = executed (results st) + (case ts of None \<Rightarrow> 0 | Some tsts \<Rightarrow> length tsts)"
    by simp_all
  from r e have r': "(st1, None) = ?r" by simp
  from "1.IH" [OF refl refl r' refl hooks2 tests2] r e c1 show ?case
    by (simp add: Let_def)
next
  case (2 self package_path sups fins st)
  show ?case by simp
next
  case (3 self package_path key subpackage rest sups fins st)
  let ?q = "(if package_path \<noteq> [] then package_path @ ''.'' else []) @ key"
  have h1: "\<forall>f \<in> hooks_of subpackage \<union> set sups \<union> set fins. never_throws f"
    using "3.prems"(1) by auto
  have h2: "\<forall>f \<in> (\<Union>kv \<in> set rest. hooks_of (snd kv)) \<union> set sups \<union> set fins. never_throws f"
    using "3.prems"(1) by auto
  have t1: "\<forall>t \<in> tests_of subpackage. \<forall>s. \<not> catch_throws t s"
    using "3.prems"(2) by auto
  have t2: "\<forall>t \<in> (\<Union>kv \<in> set rest. tests_of (snd kv)). \<forall>s. \<not> catch_throws t s"
    using "3.prems"(2) by auto
  obtain st1 e where r: "processPackage self ?q subpackage sups fins st = (st1, e)"
    by (cases "processPackage self ?q subpackage sups fins st")
  from "3.IH"(1) [OF h1 t1] r have e: "e = None"
    and c1: "executed (results st1) = executed (results st) + count_tests subpackage"
    by simp_all
  from r e have r': "(st1, None) = processPackage self ?q subpackage sups fins st" by simp
  from "3.IH"(2) [OF r' refl h2 t2] r e c1 show ?case by simp
qed

text \<open>Unfolding a run on literal packages and functions.\<close>

lemmas run_eval =
  start_def initial_state_def initial_results_def runPackageTests_def runTest_eq call_fun_eq
  caught_eq catch_error_eq shown_eq showResult_counters showResult_details Let_def headless_def
  tests_setup_def tests_finally_def test_passed_def test_failed_def catchError_def hasNumbers_def
  broken_setup_def suite_passed_def suite_failed_def assertTrue_def setResult_def new_suite_def
  error_text_object is_nullish_def error_object_def

text \<open>
  C1. Let no hook throw, and let the \<open>catch\<close> block throw neither for \<open>T\<close> nor for
  \<open>U\<close> on the suites they are called with. For the package
  \<open>{setup: S1, tests: {t: T}, finally: F1, child: {setup: S2, tests: {u: U}, finally: F2}}\<close>,
  run from the root, the calls are, in this order: \<open>S1\<close>, \<open>T\<close>, \<open>F1\<close> on the suite of
  \<open>T\<close>, then \<open>S1\<close>, \<open>S2\<close>, \<open>U\<close>, \<open>F2\<close>, \<open>F1\<close> on the suite of \<open>U\<close>. Each test starts
  from a new suite, and each function is called with the suite as the call before it
  left it, the test being followed by its \<open>try\<close> statement and \<open>showResult\<close>. The run
  ends without error.
\<close>

theorem hooks_run_in_inherited_order:
  assumes "never_throws S1" and "never_throws S2" and "never_throws F1" and "never_throws F2"
    and "\<not> catch_throws T (suite_after S1 new_suite)"
    and "\<not> catch_throws U (suite_after S2 (suite_after S1 new_suite))"
  shows "trace (fst (start
           (self\<lparr> self_package := None,
                   self_tests := Some (Package (Some S1) (Some [T]) (Some F1)
                                   [(''child'', Package (Some S2) (Some [U]) (Some F2) [])]),
                   self_setups := [], self_finallies := [] \<rparr>)))
         = (let t1 = suite_after S1 new_suite;
                t2 = shown self (caught T t1);
                u1 = suite_after S1 new_suite;
                u2 = suite_after S2 u1;
                u3 = shown self (caught U u2);
                u4 = suite_after F2 u3
            in [Call S1 new_suite, Call T t1, Call F1 t2,
                Call S1 new_suite, Call S2 u1, Call U u2, Call F2 u3, Call F1 u4])
         \<and> snd (start
           (self\<lparr> self_package := None,
                   self_tests := Some (Package (Some S1) (Some [T]) (Some F1)
                                   [(''child'', Package (Some S2) (Some [U]) (Some F2) [])]),
                   self_setups := [], self_finallies := [] \<rparr>)) = None"
proof -
  have sh: "shown (self\<lparr> self_package := a, self_tests := b, self_setups := c, self_finallies := d \<rparr>) s
            = shown self s" for a b c d s
    by (simp add: shown_eq)
  have c: "catch_error T (suite_after S1 new_suite) = None"
    "catch_error U (suite_after S2 (suite_after S1 new_suite)) = None"
    using assms(5,6) by (simp_all add: catch_error_None)
  show ?thesis
    using assms(1-4) c
    by (simp add: start_def initial_state_def runPackageTests_def runTest_eq
          call_fun_never_throws Let_def sh)
qed

text \<open>
  The theorem at the hooks of resources/tests.js and two inner hooks that set and
  delete \<open>suite.inner\<close>: for each call its function name and the values of
  \<open>suite.numbers\<close>, \<open>suite.inner\<close> and \<open>suite.result\<close> at the call.
\<close>

theorem hooks_run_in_inherited_order_witness:
  "never_throws tests_setup
   \<and> never_throws (Fun ''setup2'' (\<lambda>s. (s\<lparr>custom := (custom s)(''inner'' := JBool True)\<rparr>, None)))
   \<and> never_throws tests_finally
   \<and> never_throws (Fun ''finally2'' (\<lambda>s. (s\<lparr>custom := (custom s)(''inner'' := JUndefined)\<rparr>, None)))
   \<and> \<not> catch_throws test_passed (suite_after tests_setup new_suite)
   \<and> \<not> catch_throws hasNumbers
         (suite_after (Fun ''setup2'' (\<lambda>s. (s\<lparr>custom := (custom s)(''inner'' := JBool True)\<rparr>, None)))
            (suite_after tests_setup new_suite))
   \<and> map (\<lambda>ev. case ev of Call f s \<Rightarrow> (fname f, custom s ''numbers'', custom s ''inner'', result s))
        (trace (fst (start
           ((headless None (Package None None None []))
              \<lparr> self_package := None,
                self_tests := Some (Package (Some tests_setup) (Some [test_passed]) (Some tests_finally)
                  [(''child'',
                    Package (Some (Fun ''setup2'' (\<lambda>s. (s\<lparr>custom := (custom s)(''inner'' := JBool True)\<rparr>, None))))
                      (Some [hasNumbers])
                      (Some (Fun ''finally2'' (\<lambda>s. (s\<lparr>custom := (custom s)(''inner'' := JUndefined)\<rparr>, None))))
                      [])]),
                self_setups := [], self_finallies := [] \<rparr>))))
      = [(''setup'', JUndefined, JUndefined, JUndefined),
         (''passed'', JArr 1 [JNum 1, JNum 2, JNum 3], JUndefined, JUndefined),
         (''finally'', JArr 1 [JNum 1, JNum 2, JNum 3], JUndefined, JBool True),
         (''setup'', JUndefined, JUndefined, JUndefined),
         (''setup2'', JArr 1 [JNum 1, JNum 2, JNum 3], JUndefined, JUndefined),
         (''hasNumbers'', JArr 1 [JNum 1, JNum 2, JNum 3], JBool True, JUndefined),
         (''finally2'', JArr 1 [JNum 1, JNum 2, JNum 3], JBool True, JBool True),
         (''finally'', JArr 1 [JNum 1, JNum 2, JNum 3], JUndefined, JBool True)]"
proof -
  let ?S2 = "Fun ''setup2'' (\<lambda>s. (s\<lparr>custom := (custom s)(''inner'' := JBool True)\<rparr>, None))"
  let ?F2 = "Fun ''finally2'' (\<lambda>s. (s\<lparr>custom := (custom s)(''inner'' := JUndefined)\<rparr>, None))"
  have n: "never_throws tests_setup" "never_throws ?S2" "never_throws tests_finally"
    "never_throws ?F2"
    by (simp_all add: never_throws_def tests_setup_def tests_finally_def)
  have c: "\<not> catch_throws test_passed (suite_after tests_setup new_suite)"
    "\<not> catch_throws hasNumbers (suite_after ?S2 (suite_after tests_setup new_suite))"
    by (simp_all add: catch_throws_def test_passed_def hasNumbers_def)
  note w = hooks_run_in_inherited_order [OF n(1) n(2) n(3) n(4) c(1) c(2),
         where self = "headless None (Package None None None [])"]
  from w have "map (\<lambda>ev. case ev of Call f s \<Rightarrow> (fname f, custom s ''numbers'', custom s ''inner'', result s))
        (trace (fst (start
           ((headless None (Package None None None []))
              \<lparr> self_package := None,
                self_tests := Some (Package (Some tests_setup) (Some [test_passed]) (Some tests_finally)
                  [(''child'', Package (Some ?S2) (Some [hasNumbers]) (Some ?F2) [])]),
                self_setups := [], self_finallies := [] \<rparr>))))
      = [(''setup'', JUndefined, JUndefined, JUndefined),
         (''passed'', JArr 1 [JNum 1, JNum 2, JNum 3], JUndefined, JUndefined),
         (''finally'', JArr 1 [JNum 1, JNum 2, JNum 3], JUndefined, JBool True),
         (''setup'', JUndefined, JUndefined, JUndefined),
         (''setup2'', JArr 1 [JNum 1, JNum 2, JNum 3], JUndefined, JUndefined),
         (''hasNumbers'', JArr 1 [JNum 1, JNum 2, JNum 3], JBool True, JUndefined),
         (''finally2'', JArr 1 [JNum 1, JNum 2, JNum 3], JBool True, JBool True),
         (''finally'', JArr 1 [JNum 1, JNum 2, JNum 3], JUndefined, JBool True)]"
    by (simp add: Let_def suite_after_def caught_eq shown_eq headless_def
          tests_setup_def tests_finally_def test_passed_def hasNumbers_def
          suite_passed_def assertTrue_def setResult_def new_suite_def)
  with n c show ?thesis
    by blast
qed

text \<open>
  C8. When \<open>start\<close> has returned without error, the number of executed tests is the
  sum of the numbers of passed and failed tests. A unit test whose callback has
  returned without error, and more generally one whose setup functions have returned
  and whose \<open>catch\<close> block does not throw, raises \<open>executed\<close> by one and exactly one of
  \<open>passed\<close> and \<open>failed\<close> by one; a unit test whose setup functions throw leaves the
  result data unchanged.
\<close>

theorem executed_is_passed_plus_failed:
  "(snd (start self) = None \<longrightarrow>
      executed (results (fst (start self)))
        = passed (results (fst (start self))) + failed (results (fst (start self))))
   \<and> (snd (asyncForEach sups call_fun (new_suite, trace st)) = None
        \<and> \<not> catch_throws test (fst (fst (asyncForEach sups call_fun (new_suite, trace st))))
        \<longrightarrow>
        executed (results (fst (runTest self p sups fins test st))) = executed (results st) + 1
        \<and> passed (results (fst (runTest self p sups fins test st)))
            + failed (results (fst (runTest self p sups fins test st)))
            = passed (results st) + failed (results st) + 1
        \<and> passed (results st) \<le> passed (results (fst (runTest self p sups fins test st)))
        \<and> failed (results st) \<le> failed (results (fst (runTest self p sups fins test st))))
   \<and> (snd (runTest self p sups fins test st) = None \<longrightarrow>
        executed (results (fst (runTest self p sups fins test st))) = executed (results st) + 1
        \<and> passed (results (fst (runTest self p sups fins test st)))
            + failed (results (fst (runTest self p sups fins test st)))
            = passed (results st) + failed (results st) + 1)
   \<and> (snd (asyncForEach sups call_fun (new_suite, trace st)) \<noteq> None \<longrightarrow>
        results (fst (runTest self p sups fins test st)) = results st)"
proof -
  let ?a = "asyncForEach sups call_fun (new_suite, trace st)"
  have i: "counted initial_results"
    by (simp add: counted_def initial_results_def)
  have 1: "counted (results (fst (start self)))" if "snd (start self) = None"
    using that unfolding start_def
    by (intro processPackage_counted(1)) (simp_all add: initial_state_def i)
  have 2: "executed (results (fst (runTest self p sups fins test st))) = executed (results st) + 1
        \<and> passed (results (fst (runTest self p sups fins test st)))
            + failed (results (fst (runTest self p sups fins test st)))
            = passed (results st) + failed (results st) + 1
        \<and> passed (results st) \<le> passed (results (fst (runTest self p sups fins test st)))
        \<and> failed (results st) \<le> failed (results (fst (runTest self p sups fins test st)))"
    if "snd ?a = None \<and> \<not> catch_throws test (fst (fst ?a))"
  proof -
    from that have "catch_error test (fst (fst ?a)) = None"
      by (simp add: catch_error_None)
    with that show ?thesis
      by (simp add: runTest_eq Let_def showResult_counters)
  qed
  have 3: "results (fst (runTest self p sups fins test st)) = results st" if "snd ?a \<noteq> None"
    using that by (auto simp add: runTest_eq Let_def)
  have 4: "snd ?a = None \<and> \<not> catch_throws test (fst (fst ?a))"
    if "snd (runTest self p sups fins test st) = None"
    using that catch_error_None [of test "fst (fst ?a)"]
    by (auto simp add: runTest_eq Let_def split: option.splits)
  from 1 2 3 4 show ?thesis
    by (simp add: counted_def)
qed

text \<open>
  The theorem at the package \<open>tests_js\<close>, at the test \<open>catchError\<close> after the setup
  function of resources/tests.js, and at the same test after a setup function that
  throws.
\<close>

theorem executed_is_passed_plus_failed_witness:
  "snd (start (headless None tests_js)) = None
   \<and> executed (results (fst (start (headless None tests_js)))) = 4
   \<and> passed (results (fst (start (headless None tests_js)))) = 2
   \<and> failed (results (fst (start (headless None tests_js)))) = 2
   \<and> snd (asyncForEach [tests_setup] call_fun (new_suite, trace initial_state)) = None
   \<and> \<not> catch_throws catchError
         (fst (fst (asyncForEach [tests_setup] call_fun (new_suite, trace initial_state))))
   \<and> executed (results (fst (runTest (headless None tests_js) ''subpackage'' [tests_setup]
                                [tests_finally] catchError initial_state))) = 1
   \<and> passed (results (fst (runTest (headless None tests_js) ''subpackage'' [tests_setup]
                                [tests_finally] catchError initial_state))) = 0
   \<and> failed (results (fst (runTest (headless None tests_js) ''subpackage'' [tests_setup]
                                [tests_finally] catchError initial_state))) = 1
   \<and> snd (asyncForEach [broken_setup] call_fun (new_suite, trace initial_state)) \<noteq> None
   \<and> results (fst (runTest (headless None tests_js) ''subpackage'' [broken_setup]
                      [tests_finally] catchError initial_state)) = results initial_state"
proof -
  have z: "snd (start (headless None tests_js)) = None"
    by (simp add: tests_js_def run_eval)
  have c: "\<not> catch_throws catchError
         (fst (fst (asyncForEach [tests_setup] call_fun (new_suite, trace initial_state))))"
    by (simp add: catch_throws_def catchError_def)
  have p: "passed (results (fst (start (headless None tests_js)))) = 2"
    by (simp add: tests_js_def run_eval)
  have f: "failed (results (fst (start (headless None tests_js)))) = 2"
    by (simp add: tests_js_def run_eval)
  have h: "snd (asyncForEach [tests_setup] call_fun (new_suite, trace initial_state)) = None"
    by (simp add: call_fun_eq tests_setup_def)
  have b: "snd (asyncForEach [broken_setup] call_fun (new_suite, trace initial_state)) \<noteq> None"
    by (simp add: call_fun_eq broken_setup_def)
  have q: "passed (results (fst (runTest (headless None tests_js) ''subpackage'' [tests_setup]
                                [tests_finally] catchError initial_state))) = 0"
    by (simp add: run_eval)
  have i: "results initial_state = initial_results"
    by (simp add: initial_state_def)
  note w1 = executed_is_passed_plus_failed [where self = "headless None tests_js"
              and sups = "[tests_setup]" and st = initial_state and p = "''subpackage''"
              and fins = "[tests_finally]" and test = catchError]
  note w2 = executed_is_passed_plus_failed [where self = "headless None tests_js"
              and sups = "[broken_setup]" and st = initial_state and p = "''subpackage''"
              and fins = "[tests_finally]" and test = catchError]
  from w1 z p f have 1: "executed (results (fst (start (headless None tests_js)))) = 4"
    by simp
  from w1 h c q i have 2:
    "executed (results (fst (runTest (headless None tests_js) ''subpackage'' [tests_setup]
                                [tests_finally] catchError initial_state))) = 1"
    "failed (results (fst (runTest (headless None tests_js) ''subpackage'' [tests_setup]
                                [tests_finally] catchError initial_state))) = 1"
    by (simp_all add: initial_results_def)
  from w2 b have 3:
    "results (fst (runTest (headless None tests_js) ''subpackage'' [broken_setup]
                      [tests_finally] catchError initial_state)) = results initial_state"
    by blast
  from z 1 p f h c 2 q b 3 show ?thesis by blast
qed

text \<open>
  C9. An error of a hook ends the callback of the unit test: if the chain of setup
  functions ends with the error \<open>e\<close>, or else, the \<open>catch\<close> block not throwing, the
  chain of finally functions after the test, then the callback ends with \<open>e\<close>. An
  error leaves every enclosing part of the walk unchanged and ends it there: the
  tests of the package after the failing one are not run; \<open>processPackage\<close> returns
  what \<open>runPackageTests\<close> returned, without processing the subpackages; it returns
  what \<open>processSubpackages\<close> returned if that ended with an error;
  \<open>processSubpackages\<close> returns what \<open>processPackage\<close> returned for the failing
  subpackage, without processing the subpackages after it; and \<open>start\<close> returns what
  \<open>processPackage\<close> returns for the configured package. In contrast, the \<open>try\<close>
  statement around a test ends without error unless its \<open>catch\<close> block throws, and
  the callback of a test that always throws, but never so that the \<open>catch\<close> block
  throws, ends without error if the hooks return.
\<close>

theorem hook_error_ends_run:
  assumes "sus = (case su of None \<Rightarrow> sups | Some f \<Rightarrow> sups @ [f])"
    and "fis = (case fi of None \<Rightarrow> fins | Some f \<Rightarrow> f # fins)"
  shows "((let a = asyncForEach sus call_fun (new_suite, trace st) in
             snd a = Some e
             \<or> snd a = None \<and> \<not> catch_throws test (fst (fst a))
               \<and> snd (asyncForEach fis call_fun
                        (shown self (caught test (fst (fst a))),
                         snd (fst a) @ [Call test (fst (fst a))])) = Some e)
           \<longrightarrow> snd (runTest self p sus fis test st) = Some e)
         \<and> (runPackageTests self p sus fis pre entry = (st, None)
             \<and> snd (runTest self p sus fis test st) = Some e
           \<longrightarrow> runPackageTests self p sus fis (pre @ test # rest) entry
                 = runTest self p sus fis test st)
         \<and> (snd (runPackageTests self p sus fis tsts entry) = Some e
           \<longrightarrow> processPackage self p (Package su (Some tsts) fi subs) sups fins entry
                 = runPackageTests self p sus fis tsts entry)
         \<and> ((case ts of None \<Rightarrow> (entry, None)
              | Some tsts \<Rightarrow> runPackageTests self p sus fis tsts entry) = (st, None)
             \<and> snd (processSubpackages self p subs sus fis st) = Some e
           \<longrightarrow> processPackage self p (Package su ts fi subs) sups fins entry
                 = processSubpackages self p subs sus fis st)
         \<and> (processSubpackages self p before sups fins entry = (st, None)
             \<and> snd (processPackage self ((if p \<noteq> [] then p @ ''.'' else []) @ key) sub sups fins
                      st) = Some e
           \<longrightarrow> processSubpackages self p (before @ (key, sub) # after) sups fins entry
                 = processPackage self ((if p \<noteq> [] then p @ ''.'' else []) @ key) sub sups fins
                     st)
         \<and> start self
             = processPackage self (case self_package self of None \<Rightarrow> [] | Some x \<Rightarrow> x)
                 (case self_tests self of None \<Rightarrow> Package None None None [] | Some pkg \<Rightarrow> pkg)
                 (self_setups self) (self_finallies self) initial_state
         \<and> (\<not> catch_throws test s \<longrightarrow> snd (try_test test (s, tr)) = None)
         \<and> ((\<forall>s. snd (body test s) \<noteq> None) \<and> (\<forall>s. \<not> catch_throws test s)
              \<and> (\<forall>f \<in> set hs \<union> set hf. never_throws f)
           \<longrightarrow> snd (runTest self p hs hf test st) = None)"
proof -
  let ?a = "asyncForEach sus call_fun (new_suite, trace st)"
  have A: "snd (runTest self p sus fis test st) = Some e"
    if "snd ?a = Some e
         \<or> snd ?a = None \<and> \<not> catch_throws test (fst (fst ?a))
           \<and> snd (asyncForEach fis call_fun
                    (shown self (caught test (fst (fst ?a))),
                     snd (fst ?a) @ [Call test (fst (fst ?a))])) = Some e"
    using that catch_error_None [of test "fst (fst ?a)"]
    by (auto simp add: runTest_eq Let_def)
  have B: "runPackageTests self p sus fis (pre @ test # rest) entry
             = runTest self p sus fis test st"
    if "runPackageTests self p sus fis pre entry = (st, None)
        \<and> snd (runTest self p sus fis test st) = Some e"
  proof -
    from that obtain st1 where "runTest self p sus fis test st = (st1, Some e)"
      by (cases "runTest self p sus fis test st") auto
    with that show ?thesis
      by (simp add: runPackageTests_def asyncForEach_append)
  qed
  have C: "processPackage self p (Package su (Some tsts) fi subs) sups fins entry
             = runPackageTests self p sus fis tsts entry"
    if "snd (runPackageTests self p sus fis tsts entry) = Some e"
  proof -
    from that obtain st1 where "runPackageTests self p sus fis tsts entry = (st1, Some e)"
      by (cases "runPackageTests self p sus fis tsts entry") auto
    then show ?thesis
      by (simp add: Let_def assms(1,2) [symmetric])
  qed
  have D: "processPackage self p (Package su ts fi subs) sups fins entry
             = processSubpackages self p subs sus fis st"
    if "(case ts of None \<Rightarrow> (entry, None)
         | Some tsts \<Rightarrow> runPackageTests self p sus fis tsts entry) = (st, None)
        \<and> snd (processSubpackages self p subs sus fis st) = Some e"
    using that by (simp add: Let_def assms(1,2) [symmetric])
  define q where "q = (if p \<noteq> [] then p @ ''.'' else []) @ key"
  have E: "processSubpackages self p (before @ (key, sub) # after) sups fins entry
             = processPackage self q sub sups fins st"
    if "processSubpackages self p before sups fins entry = (st, None)
        \<and> snd (processPackage self q sub sups fins st) = Some e"
    using that
  proof (induction before arbitrary: entry)
    case Nil
    then obtain st1 where "processPackage self q sub sups fins st = (st1, Some e)"
      by (cases "processPackage self q sub sups fins st") auto
    with Nil show ?case
      by (simp add: q_def [symmetric] del: processPackage.simps)
  next
    case (Cons kv before)
    obtain k pk where kv: "kv = (k, pk)" by (cases kv)
    let ?r = "processPackage self ((if p \<noteq> [] then p @ ''.'' else []) @ k) pk sups fins entry"
    obtain st1 r where r: "?r = (st1, r)" by (cases ?r)
    with Cons.prems kv have rn: "r = None"
      by (cases r) (simp_all del: processPackage.simps)
    with Cons.prems kv r have "processSubpackages self p before sups fins st1 = (st, None)"
      by (simp del: processPackage.simps)
    with Cons.IH [of st1] Cons.prems kv r rn show ?case
      by (simp del: processPackage.simps)
  qed
  have F: "start self
             = processPackage self (case self_package self of None \<Rightarrow> [] | Some x \<Rightarrow> x)
                 (case self_tests self of None \<Rightarrow> Package None None None [] | Some pkg \<Rightarrow> pkg)
                 (self_setups self) (self_finallies self) initial_state"
    by (simp add: start_def)
  have G: "snd (try_test test (s, tr)) = None" if "\<not> catch_throws test s"
    using that by (simp add: try_test_eq catch_error_None)
  have H: "snd (runTest self p hs hf test st) = None"
    if "(\<forall>s. snd (body test s) \<noteq> None) \<and> (\<forall>s. \<not> catch_throws test s)
        \<and> (\<forall>f \<in> set hs \<union> set hf. never_throws f)"
    using that runTest_executes [of hs hf test self p st] by blast
  from A B C D E [unfolded q_def] F G H show ?thesis
    unfolding Let_def by blast
qed

text \<open>
  The theorem at the package tree \<open>deep_js\<close>: the setup function of the package
  \<open>child.grand\<close> throws, and the error leaves that package, the package \<open>child\<close>,
  the root package and the run, after one executed test and four calls. At the
  package \<open>strict_js\<close>, whose finally function throws once a test has failed: the run
  ends with that error after the second of three tests. And at the unit test
  \<open>catchError\<close>, whose error is caught.
\<close>

theorem hook_error_ends_run_witness:
  "snd (runPackageTests (headless None deep_js) [] [tests_setup] [] [test_passed] initial_state)
     = None
   \<and> snd (asyncForEach [tests_setup, broken_setup] call_fun
            (new_suite, trace (fst (runPackageTests (headless None deep_js) [] [tests_setup] []
                                      [test_passed] initial_state))))
       = Some (error_object ''Error'' ''down'')
   \<and> processPackage (headless None deep_js) ''child.grand'' grand_js [tests_setup] []
         (fst (runPackageTests (headless None deep_js) [] [tests_setup] [] [test_passed]
                 initial_state))
       = runTest (headless None deep_js) ''child.grand'' [tests_setup, broken_setup] [] hasNumbers
           (fst (runPackageTests (headless None deep_js) [] [tests_setup] [] [test_passed]
                   initial_state))
   \<and> processPackage (headless None deep_js) ''child'' child_js [tests_setup] []
         (fst (runPackageTests (headless None deep_js) [] [tests_setup] [] [test_passed]
                 initial_state))
       = runTest (headless None deep_js) ''child.grand'' [tests_setup, broken_setup] [] hasNumbers
           (fst (runPackageTests (headless None deep_js) [] [tests_setup] [] [test_passed]
                   initial_state))
   \<and> start (headless None deep_js)
       = runTest (headless None deep_js) ''child.grand'' [tests_setup, broken_setup] [] hasNumbers
           (fst (runPackageTests (headless None deep_js) [] [tests_setup] [] [test_passed]
                   initial_state))
   \<and> snd (start (headless None deep_js)) = Some (error_object ''Error'' ''down'')
   \<and> executed (results (fst (start (headless None deep_js)))) = 1
   \<and> map (\<lambda>ev. case ev of Call f s \<Rightarrow> fname f) (trace (fst (start (headless None deep_js))))
       = [''setup'', ''passed'', ''setup'', ''brokenSetup'']
   \<and> snd (runPackageTests (headless (Some ''pkg'') strict_js) ''pkg'' [tests_setup]
            [strict_finally] [test_passed] initial_state) = None
   \<and> \<not> catch_throws test_failed (suite_after tests_setup new_suite)
   \<and> snd (runTest (headless (Some ''pkg'') strict_js) ''pkg'' [tests_setup] [strict_finally]
            test_failed
            (fst (runPackageTests (headless (Some ''pkg'') strict_js) ''pkg'' [tests_setup]
                    [strict_finally] [test_passed] initial_state)))
       = Some (error_object ''Error'' ''test failed'')
   \<and> start (headless (Some ''pkg'') strict_js)
       = runTest (headless (Some ''pkg'') strict_js) ''pkg'' [tests_setup] [strict_finally]
           test_failed
           (fst (runPackageTests (headless (Some ''pkg'') strict_js) ''pkg'' [tests_setup]
                   [strict_finally] [test_passed] initial_state))
   \<and> executed (results (fst (start (headless (Some ''pkg'') strict_js)))) = 2
   \<and> map (\<lambda>ev. case ev of Call f s \<Rightarrow> fname f)
         (trace (fst (start (headless (Some ''pkg'') strict_js))))
       = [''setup'', ''passed'', ''finally'', ''setup'', ''failed'', ''finally'']
   \<and> (\<forall>s. snd (body catchError s) \<noteq> None)
   \<and> (\<forall>s. \<not> catch_throws catchError s)
   \<and> never_throws tests_setup \<and> never_throws tests_finally
   \<and> snd (try_test catchError (new_suite, [])) = None
   \<and> snd (runTest (headless None deep_js) ''subpackage'' [tests_setup] [tests_finally]
            catchError initial_state) = None"
proof -
  let ?I = "headless None deep_js"
  let ?e = "error_object ''Error'' ''down''"
  let ?pre = "runPackageTests ?I [] [tests_setup] [] [test_passed] initial_state"
  let ?st = "fst ?pre"
  let ?sus = "[tests_setup, broken_setup]"
  let ?rt = "runTest ?I ''child.grand'' ?sus [] hasNumbers ?st"
  let ?cousin = "(''cousin'', Package None (Some [test_passed]) None [])"
  let ?sibling = "(''sibling'', Package None (Some [test_passed]) None [])"
  let ?deep = "(''deep'', Package None (Some [test_passed]) None [])"
  have pre: "snd ?pre = None"
    by (simp add: run_eval)
  then have pre': "?pre = (?st, None)"
    by (metis prod.collapse)
  have a: "snd (asyncForEach ?sus call_fun (new_suite, trace ?st)) = Some ?e"
    by (simp add: call_fun_eq tests_setup_def broken_setup_def)
  have c1: "?sus = (case Some broken_setup of None \<Rightarrow> [tests_setup] | Some f \<Rightarrow> [tests_setup] @ [f])"
    and c2: "[] = (case None of None \<Rightarrow> [] | Some f \<Rightarrow> f # ([]::jsfun list))"
    and c4: "[tests_setup] = (case None of None \<Rightarrow> [tests_setup] | Some f \<Rightarrow> [tests_setup] @ [f])"
    and c6: "[tests_setup] = (case Some tests_setup of None \<Rightarrow> [] | Some f \<Rightarrow> [] @ [f])"
    by simp_all
  note g = hook_error_ends_run [OF c1 c2, where self = ?I and p = "''child.grand''"
             and st = ?st and e = ?e and test = hasNumbers and pre = "[]" and entry = ?st
             and rest = "[test_failed]" and tsts = "[hasNumbers, test_failed]"
             and subs = "[?deep]"]
  from g a have 1: "snd ?rt = Some ?e"
    unfolding Let_def by blast
  have "runPackageTests ?I ''child.grand'' ?sus [] [] ?st = (?st, None)"
    by (simp add: runPackageTests_def)
  with g 1 have "runPackageTests ?I ''child.grand'' ?sus [] ([] @ hasNumbers # [test_failed]) ?st = ?rt"
    by blast
  then have 2: "runPackageTests ?I ''child.grand'' ?sus [] [hasNumbers, test_failed] ?st = ?rt"
    by simp
  with 1 have "snd (runPackageTests ?I ''child.grand'' ?sus [] [hasNumbers, test_failed] ?st) = Some ?e"
    by simp
  with g have "processPackage ?I ''child.grand''
                 (Package (Some broken_setup) (Some [hasNumbers, test_failed]) None [?deep])
                 [tests_setup] [] ?st
               = runPackageTests ?I ''child.grand'' ?sus [] [hasNumbers, test_failed] ?st"
    by blast
  with 2 have 3: "processPackage ?I ''child.grand'' grand_js [tests_setup] [] ?st = ?rt"
    by (simp add: grand_js_def)
  note h = hook_error_ends_run [OF c4 c2, where self = ?I and p = "''child''"
             and key = "''grand''"
             and st = ?st and e = ?e and entry = ?st and before = "[]" and sub = grand_js
             and after = "[?cousin]" and ts = None
             and subs = "[(''grand'', grand_js), ?cousin]"]
  have "processSubpackages ?I ''child'' [] [tests_setup] [] ?st = (?st, None)"
    by simp
  with h 3 1 have "processSubpackages ?I ''child'' ([] @ (''grand'', grand_js) # [?cousin])
                     [tests_setup] [] ?st = ?rt"
    by (simp del: processPackage.simps processSubpackages.simps)
  then have 4: "processSubpackages ?I ''child'' [(''grand'', grand_js), ?cousin] [tests_setup] [] ?st
                  = ?rt"
    by (simp del: processPackage.simps processSubpackages.simps)
  have "(case None of None \<Rightarrow> (?st, None)
         | Some tsts \<Rightarrow> runPackageTests ?I ''child'' [tests_setup] [] tsts ?st) = (?st, None)"
    by simp
  with h 4 1 have "processPackage ?I ''child'' (Package None None None [(''grand'', grand_js), ?cousin])
                     [tests_setup] [] ?st
                   = processSubpackages ?I ''child'' [(''grand'', grand_js), ?cousin] [tests_setup] [] ?st"
    by (simp del: processPackage.simps processSubpackages.simps)
  with 4 have 5: "processPackage ?I ''child'' child_js [tests_setup] [] ?st = ?rt"
    by (simp add: child_js_def del: processPackage.simps processSubpackages.simps)
  note k = hook_error_ends_run [OF c6 c2, where self = ?I and p = "[]"
             and st = ?st and e = ?e and entry = initial_state and ts = "Some [test_passed]"
             and subs = "[(''child'', child_js), ?sibling]"]
  note k' = hook_error_ends_run [OF c4 c2, where self = ?I and p = "[]"
             and key = "''child''"
             and st = ?st and e = ?e and entry = ?st and before = "[]" and sub = child_js
             and after = "[?sibling]"]
  have "processSubpackages ?I [] [] [tests_setup] [] ?st = (?st, None)"
    by simp
  with k' 5 1 have "processSubpackages ?I [] ([] @ (''child'', child_js) # [?sibling])
                      [tests_setup] [] ?st = ?rt"
    by (simp del: processPackage.simps processSubpackages.simps)
  then have 6: "processSubpackages ?I [] [(''child'', child_js), ?sibling] [tests_setup] [] ?st = ?rt"
    by (simp del: processPackage.simps processSubpackages.simps)
  have "(case Some [test_passed] of None \<Rightarrow> (initial_state, None)
         | Some tsts \<Rightarrow> runPackageTests ?I [] [tests_setup] [] tsts initial_state) = (?st, None)"
    using pre' by simp
  with k 6 1 have "processPackage ?I []
                     (Package (Some tests_setup) (Some [test_passed]) None
                        [(''child'', child_js), ?sibling]) [] [] initial_state
                   = processSubpackages ?I [] [(''child'', child_js), ?sibling] [tests_setup] [] ?st"
    by (simp del: processPackage.simps processSubpackages.simps)
  with 6 have 7: "processPackage ?I [] deep_js [] [] initial_state = ?rt"
    by (simp add: deep_js_def del: processPackage.simps processSubpackages.simps)
  from k have "start ?I
             = processPackage ?I (case self_package ?I of None \<Rightarrow> [] | Some x \<Rightarrow> x)
                 (case self_tests ?I of None \<Rightarrow> Package None None None [] | Some pkg \<Rightarrow> pkg)
                 (self_setups ?I) (self_finallies ?I) initial_state"
    by blast
  with 7 have 8: "start ?I = ?rt"
    by (simp add: headless_def del: processPackage.simps processSubpackages.simps)
  have ev: "executed (results ?st) = 1"
    "map (\<lambda>ev. case ev of Call f s \<Rightarrow> fname f) (trace ?st) = [''setup'', ''passed'']"
    by (simp_all add: run_eval)
  have rt: "?rt = (?st\<lparr>trace := trace ?st
                      @ [Call tests_setup new_suite, Call broken_setup (suite_after tests_setup new_suite)]\<rparr>,
                   Some ?e)"
    by (simp add: runTest_eq call_fun_eq Let_def suite_after_def tests_setup_def broken_setup_def)
  from 8 rt ev have 9: "snd (start ?I) = Some ?e"
    "executed (results (fst (start ?I))) = 1"
    "map (\<lambda>ev. case ev of Call f s \<Rightarrow> fname f) (trace (fst (start ?I)))
       = [''setup'', ''passed'', ''setup'', ''brokenSetup'']"
    by (simp_all add: tests_setup_def broken_setup_def)
  let ?J = "headless (Some ''pkg'') strict_js"
  let ?f = "error_object ''Error'' ''test failed''"
  let ?pre2 = "runPackageTests ?J ''pkg'' [tests_setup] [strict_finally] [test_passed] initial_state"
  let ?st2 = "fst ?pre2"
  let ?rt2 = "runTest ?J ''pkg'' [tests_setup] [strict_finally] test_failed ?st2"
  let ?a2 = "asyncForEach [tests_setup] call_fun (new_suite, trace ?st2)"
  have pre2: "snd ?pre2 = None"
    by (simp add: run_eval strict_finally_def)
  then have pre2': "?pre2 = (?st2, None)"
    by (metis prod.collapse)
  have d1: "[strict_finally] = (case Some strict_finally of None \<Rightarrow> [] | Some f \<Rightarrow> f # [])"
    by simp
  have a2: "snd ?a2 = None" "fst (fst ?a2) = suite_after tests_setup new_suite"
    by (simp_all add: call_fun_eq tests_setup_def suite_after_def)
  have ct: "\<not> catch_throws test_failed (suite_after tests_setup new_suite)"
    by (simp add: catch_throws_def test_failed_def)
  have f2: "snd (asyncForEach [strict_finally] call_fun
                  (shown ?J (caught test_failed (fst (fst ?a2))),
                   snd (fst ?a2) @ [Call test_failed (fst (fst ?a2))])) = Some ?f"
    by (simp add: call_fun_eq caught_eq shown_eq strict_finally_def test_failed_def
          suite_failed_def setResult_def tests_setup_def new_suite_def)
  note m = hook_error_ends_run [OF c6 d1, where self = ?J and p = "''pkg''"
             and st = ?st2 and e = ?f and test = test_failed and pre = "[test_passed]"
             and entry = initial_state and rest = "[hasNumbers]"
             and tsts = "[test_passed, test_failed, hasNumbers]"
             and subs = "[(''child'', Package None (Some [hasNumbers]) None [])]"]
  from m a2 ct f2 have 10: "snd ?rt2 = Some ?f"
    unfolding Let_def by metis
  with m pre2' have "runPackageTests ?J ''pkg'' [tests_setup] [strict_finally]
                       ([test_passed] @ test_failed # [hasNumbers]) initial_state = ?rt2"
    by blast
  then have 11: "runPackageTests ?J ''pkg'' [tests_setup] [strict_finally]
                   [test_passed, test_failed, hasNumbers] initial_state = ?rt2"
    by simp
  with 10 have "snd (runPackageTests ?J ''pkg'' [tests_setup] [strict_finally]
                   [test_passed, test_failed, hasNumbers] initial_state) = Some ?f"
    by simp
  with m have "processPackage ?J ''pkg''
                 (Package (Some tests_setup) (Some [test_passed, test_failed, hasNumbers])
                    (Some strict_finally) [(''child'', Package None (Some [hasNumbers]) None [])])
                 [] [] initial_state
               = runPackageTests ?J ''pkg'' [tests_setup] [strict_finally]
                   [test_passed, test_failed, hasNumbers] initial_state"
    by blast
  with 11 have 12: "processPackage ?J ''pkg'' strict_js [] [] initial_state = ?rt2"
    by (simp add: strict_js_def del: processPackage.simps processSubpackages.simps)
  from m have "start ?J
             = processPackage ?J (case self_package ?J of None \<Rightarrow> [] | Some x \<Rightarrow> x)
                 (case self_tests ?J of None \<Rightarrow> Package None None None [] | Some pkg \<Rightarrow> pkg)
                 (self_setups ?J) (self_finallies ?J) initial_state"
    by blast
  with 12 have 13: "start ?J = ?rt2"
    by (simp add: headless_def del: processPackage.simps processSubpackages.simps)
  have ev2: "executed (results (fst (start ?J))) = 2"
    "map (\<lambda>ev. case ev of Call f s \<Rightarrow> fname f) (trace (fst (start ?J)))
       = [''setup'', ''passed'', ''finally'', ''setup'', ''failed'', ''finally'']"
    by (simp_all add: strict_js_def strict_finally_def run_eval)
  have t1: "\<forall>s. snd (body catchError s) \<noteq> None"
    and t2: "\<forall>s. \<not> catch_throws catchError s"
    by (simp_all add: catchError_def catch_throws_def)
  have n: "never_throws tests_setup" "never_throws tests_finally"
    by (simp_all add: never_throws_def tests_setup_def tests_finally_def)
  then have n': "\<forall>f \<in> set [tests_setup] \<union> set [tests_finally]. never_throws f"
    by simp
  note o = hook_error_ends_run [OF c6 c2, where self = ?I and test = catchError
             and s = new_suite and tr = "[]" and hs = "[tests_setup]" and hf = "[tests_finally]"
             and p = "''subpackage''" and st = initial_state]
  from o t2 have 14: "snd (try_test catchError (new_suite, [])) = None"
    by blast
  from o t1 t2 n' have 15: "snd (runTest ?I ''subpackage'' [tests_setup] [tests_finally]
                                  catchError initial_state) = None"
    by blast
  from pre a 3 5 8 9 pre2 ct 10 13 ev2 t1 t2 n 14 15 show ?thesis
    by blast
qed

text \<open>
  C3, as the code has it. With an absent or empty package path, \<open>ready\<close> returns the
  instance unchanged, and \<open>start\<close> processes the whole configured package under the
  empty path. If no hook throws and the \<open>catch\<close> block throws for no test, the run
  ends without error and the number of executed tests is the number of unit tests
  in the tree.
\<close>

theorem empty_path_runs_whole_tree:
  assumes "self_package self = None \<or> self_package self = Some []"
    and "self_tests self = Some pkg"
    and "\<forall>f \<in> hooks_of pkg \<union> set (self_setups self) \<union> set (self_finallies self). never_throws f"
    and "\<forall>t \<in> tests_of pkg. \<forall>s. \<not> catch_throws t s"
  shows "ready self = Some (Inr self)
         \<and> start self = processPackage self [] pkg (self_setups self) (self_finallies self)
                           initial_state
         \<and> snd (start self) = None
         \<and> executed (results (fst (start self))) = count_tests pkg"
proof -
  have p: "(case self_package self of None \<Rightarrow> [] | Some p \<Rightarrow> p) = []"
    using assms(1) by auto
  have 1: "ready self = Some (Inr self)"
    using assms(1) by (auto simp add: ready_def)
  have 2: "start self = processPackage self [] pkg (self_setups self) (self_finallies self)
                           initial_state"
    by (simp add: start_def p assms(2))
  from processPackage_executes(1) [OF assms(3,4), of self "[]" initial_state]
  have "snd (start self) = None \<and> executed (results (fst (start self))) = count_tests pkg"
    by (simp add: 2 initial_state_def initial_results_def)
  with 1 2 show ?thesis by simp
qed

text \<open>The theorem at the package \<open>tests_js\<close> with no package path.\<close>

theorem empty_path_runs_whole_tree_witness:
  "self_package (headless None tests_js) = None
   \<and> self_tests (headless None tests_js) = Some tests_js
   \<and> hooks_of tests_js = {tests_setup, tests_finally}
   \<and> never_throws tests_setup \<and> never_throws tests_finally
   \<and> tests_of tests_js = {test_passed, test_failed, catchError, hasNumbers}
   \<and> (\<forall>s. \<not> catch_throws test_passed s) \<and> (\<forall>s. \<not> catch_throws test_failed s)
   \<and> (\<forall>s. \<not> catch_throws catchError s) \<and> (\<forall>s. \<not> catch_throws hasNumbers s)
   \<and> self_setups (headless None tests_js) = [] \<and> self_finallies (headless None tests_js) = []
   \<and> ready (headless None tests_js) = Some (Inr (headless None tests_js))
   \<and> snd (start (headless None tests_js)) = None
   \<and> executed (results (fst (start (headless None tests_js)))) = 4"
proof -
  have a: "self_package (headless None tests_js) = None \<or> self_package (headless None tests_js) = Some []"
    and a': "self_package (headless None tests_js) = None"
    and b: "self_tests (headless None tests_js) = Some tests_js"
    and c: "self_setups (headless None tests_js) = []" "self_finallies (headless None tests_js) = []"
    by (simp_all add: headless_def)
  have h: "hooks_of tests_js = {tests_setup, tests_finally}"
    by (auto simp add: tests_js_def)
  have n: "never_throws tests_setup" "never_throws tests_finally"
    by (simp_all add: never_throws_def tests_setup_def tests_finally_def)
  have d: "\<forall>f \<in> hooks_of tests_js \<union> set (self_setups (headless None tests_js))
              \<union> set (self_finallies (headless None tests_js)). never_throws f"
    by (simp add: h c n)
  have t: "tests_of tests_js = {test_passed, test_failed, catchError, hasNumbers}"
    by (auto simp add: tests_js_def)
  have ct: "\<forall>s. \<not> catch_throws test_passed s" "\<forall>s. \<not> catch_throws test_failed s"
    "\<forall>s. \<not> catch_throws catchError s" "\<forall>s. \<not> catch_throws hasNumbers s"
    by (simp_all add: catch_throws_def test_passed_def test_failed_def catchError_def
          hasNumbers_def)
  have d': "\<forall>t \<in> tests_of tests_js. \<forall>s. \<not> catch_throws t s"
    unfolding t using ct by blast
  have k: "count_tests tests_js = 4"
    by (simp add: tests_js_def)
  note w = empty_path_runs_whole_tree [OF a b d d']
  from w have 1: "ready (headless None tests_js) = Some (Inr (headless None tests_js))"
    and 2: "snd (start (headless None tests_js)) = None"
    and 3: "executed (results (fst (start (headless None tests_js)))) = count_tests tests_js"
    by blast+
  from 3 k have 4: "executed (results (fst (start (headless None tests_js)))) = 4"
    by (simp only:)
  from a' b h n t ct c 1 2 4 show ?thesis
    by blast
qed

text \<open>
  C3 as stated fails: with an absent package path, and likewise with the empty path,
  a package with one unit test has that test called and counted.
\<close>

theorem empty_path_is_not_a_noop_counterexample:
  "self_package (headless None (Package None (Some [test_passed]) None [])) = None
   \<and> ready (headless None (Package None (Some [test_passed]) None []))
       = Some (Inr (headless None (Package None (Some [test_passed]) None [])))
   \<and> trace (fst (start (headless None (Package None (Some [test_passed]) None []))))
       = [Call test_passed new_suite]
   \<and> executed (results (fst (start (headless None (Package None (Some [test_passed]) None []))))) = 1
   \<and> passed (results (fst (start (headless None (Package None (Some [test_passed]) None []))))) = 1
   \<and> executed (results (fst (start (headless (Some []) (Package None (Some [test_passed]) None []))))) = 1"
  by (simp add: ready_def headless_def start_def initial_state_def initial_results_def
        runPackageTests_def runTest_no_hooks showResult_counters caught_eq catch_error_eq
        test_passed_def suite_passed_def setResult_def new_suite_def)

end
